theory Spec2Isabelle
  imports Main "HOL-Library.Sublist"
begin

section \<open>Python strings and the URL quoting the views rely on\<close>

text \<open>
  A Python \<open>str\<close> is a sequence of Unicode code points; it is modelled as a list of
  their numbers. A \<open>bytes\<close> value is a list of numbers below 256. The views call
  \<open>urllib.parse.quote_plus\<close> and \<open>urllib.parse.unquote_plus\<close>; both are embedded
  here function by function, with the UTF-8 codec they go through.
\<close>

type_synonym pystr = "nat list"
type_synonym pybytes = "nat list"

definition lit :: "string \<Rightarrow> pystr" where
  \<comment> \<open>an ASCII string literal of the source\<close>
  "lit cs = map of_char cs"

definition is_surrogate :: "nat \<Rightarrow> bool" where
  "is_surrogate c = (0xD800 \<le> c \<and> c \<le> 0xDFFF)"

definition encodable :: "pystr \<Rightarrow> bool" where
  \<comment> \<open>the strings \<open>str.encode('utf-8', 'strict')\<close> accepts: code points up to
      U+10FFFF, none of them a surrogate\<close>
  "encodable s = list_all (\<lambda>c. c \<le> 0x10FFFF \<and> \<not> is_surrogate c) s"

definition utf8_encode_char :: "nat \<Rightarrow> pybytes option" where
  "utf8_encode_char c =
     (if c < 0x80 then Some [c]
      else if c < 0x800 then Some [0xC0 + c div 64, 0x80 + c mod 64]
      else if c < 0x10000 then
        (if is_surrogate c then None
         else Some [0xE0 + c div 4096, 0x80 + (c div 64) mod 64, 0x80 + c mod 64])
      else if c \<le> 0x10FFFF then
        Some [0xF0 + c div 262144, 0x80 + (c div 4096) mod 64,
              0x80 + (c div 64) mod 64, 0x80 + c mod 64]
      else None)"

fun utf8_encode :: "pystr \<Rightarrow> pybytes option" where
  \<comment> \<open>\<open>s.encode('utf-8', 'strict')\<close>; \<open>None\<close> is \<open>UnicodeEncodeError\<close>\<close>
  "utf8_encode [] = Some []"
| "utf8_encode (c # cs) =
     (case utf8_encode_char c of
        None \<Rightarrow> None
      | Some bs \<Rightarrow> (case utf8_encode cs of None \<Rightarrow> None | Some rest \<Rightarrow> Some (bs @ rest)))"

definition is_continuation :: "nat \<Rightarrow> bool" where
  "is_continuation b = (0x80 \<le> b \<and> b < 0xC0)"

definition replacement_char :: nat where
  "replacement_char = 0xFFFD"

definition utf8_decode_step :: "nat \<Rightarrow> pybytes \<Rightarrow> nat \<times> nat" where
  \<comment> \<open>one round of the decoder on the lead byte \<open>ch\<close> and the bytes after it: the
      code point produced and how many of the following bytes are consumed. With
      \<open>errors='replace'\<close> an invalid start byte, an invalid continuation and a
      truncated sequence each give U+FFFD for the bytes recognised so far.\<close>
  "utf8_decode_step ch s =
     (if ch < 0x80 then (ch, 0)
      else if ch < 0xE0 then
        (if ch < 0xC2 then (replacement_char, 0)
         else (case s of
                 [] \<Rightarrow> (replacement_char, 0)
               | ch2 # _ \<Rightarrow>
                   if \<not> is_continuation ch2 then (replacement_char, 0)
                   else ((ch - 0xC0) * 64 + (ch2 - 0x80), 1)))
      else if ch < 0xF0 then
        (case s of
           [] \<Rightarrow> (replacement_char, 0)
         | [ch2] \<Rightarrow>
             if \<not> is_continuation ch2 \<or> (if ch2 < 0xA0 then ch = 0xE0 else ch = 0xED)
             then (replacement_char, 0) else (replacement_char, 1)
         | ch2 # ch3 # _ \<Rightarrow>
             if \<not> is_continuation ch2 then (replacement_char, 0)
             else if ch = 0xE0 \<and> ch2 < 0xA0 then (replacement_char, 0)
             else if ch = 0xED \<and> 0xA0 \<le> ch2 then (replacement_char, 0)
             else if \<not> is_continuation ch3 then (replacement_char, 1)
             else ((ch - 0xE0) * 4096 + (ch2 - 0x80) * 64 + (ch3 - 0x80), 2))
      else if ch < 0xF5 then
        (case s of
           [] \<Rightarrow> (replacement_char, 0)
         | [ch2] \<Rightarrow>
             if \<not> is_continuation ch2 \<or> (if ch2 < 0x90 then ch = 0xF0 else ch = 0xF4)
             then (replacement_char, 0) else (replacement_char, 1)
         | [ch2, ch3] \<Rightarrow>
             if \<not> is_continuation ch2 \<or> (if ch2 < 0x90 then ch = 0xF0 else ch = 0xF4)
             then (replacement_char, 0)
             else if \<not> is_continuation ch3 then (replacement_char, 1)
             else (replacement_char, 2)
         | ch2 # ch3 # ch4 # _ \<Rightarrow>
             if \<not> is_continuation ch2 then (replacement_char, 0)
             else if ch = 0xF0 \<and> ch2 < 0x90 then (replacement_char, 0)
             else if ch = 0xF4 \<and> 0x90 \<le> ch2 then (replacement_char, 0)
             else if \<not> is_continuation ch3 then (replacement_char, 1)
             else if \<not> is_continuation ch4 then (replacement_char, 2)
             else ((ch - 0xF0) * 262144 + (ch2 - 0x80) * 4096
                     + (ch3 - 0x80) * 64 + (ch4 - 0x80), 3))
      else (replacement_char, 0))"

function utf8_decode :: "pybytes \<Rightarrow> pystr" where
  \<comment> \<open>\<open>bs.decode('utf-8', 'replace')\<close>\<close>
  "utf8_decode [] = []"
| "utf8_decode (ch # s) =
     (case utf8_decode_step ch s of (c, n) \<Rightarrow> c # utf8_decode (drop n s))"
  by pat_completeness auto
termination
  by (relation "measure length") auto

subsection \<open>quote_plus\<close>

definition always_safe :: "nat \<Rightarrow> bool" where
  \<comment> \<open>\<open>_ALWAYS_SAFE\<close>: ASCII letters, digits and \<open>_.-~\<close>\<close>
  "always_safe b =
     ((65 \<le> b \<and> b \<le> 90) \<or> (97 \<le> b \<and> b \<le> 122) \<or> (48 \<le> b \<and> b \<le> 57)
      \<or> b = 95 \<or> b = 46 \<or> b = 45 \<or> b = 126)"

definition hex_digit :: "nat \<Rightarrow> nat" where
  \<comment> \<open>the upper-case hexadecimal digit of a number below 16, as \<open>{:02X}\<close> prints it\<close>
  "hex_digit d = (if d < 10 then 48 + d else 55 + d)"

definition quoter :: "nat list \<Rightarrow> nat \<Rightarrow> pystr" where
  \<comment> \<open>\<open>_Quoter.__missing__\<close>: \<open>chr(b) if b in self.safe else '%{:02X}'.format(b)\<close>\<close>
  "quoter safe b =
     (if always_safe b \<or> b \<in> set safe then [b]
      else [37, hex_digit (b div 16), hex_digit (b mod 16)])"

definition quote_from_bytes :: "pybytes \<Rightarrow> nat list \<Rightarrow> pystr" where
  "quote_from_bytes bs safe =
     (if bs = [] then []
      else if list_all (\<lambda>b. always_safe b \<or> b \<in> set safe) bs then bs
      else concat (map (quoter safe) bs))"

definition quote :: "pystr \<Rightarrow> nat list \<Rightarrow> pystr option" where
  \<comment> \<open>\<open>quote(string, safe)\<close> on a \<open>str\<close>, default encoding and errors\<close>
  "quote s safe =
     (if s = [] then Some s
      else (case utf8_encode s of
              None \<Rightarrow> None
            | Some bs \<Rightarrow> Some (quote_from_bytes bs safe)))"

definition replace_char :: "nat \<Rightarrow> nat \<Rightarrow> pystr \<Rightarrow> pystr" where
  \<comment> \<open>\<open>s.replace(a, b)\<close> for one-character \<open>a\<close> and \<open>b\<close>\<close>
  "replace_char a b s = map (\<lambda>c. if c = a then b else c) s"

definition quote_plus :: "pystr \<Rightarrow> pystr option" where
  \<comment> \<open>\<open>quote_plus(string)\<close> with the default \<open>safe=''\<close>\<close>
  "quote_plus s =
     (if 32 \<notin> set s then quote s []
      else (case quote s [32] of
              None \<Rightarrow> None
            | Some q \<Rightarrow> Some (replace_char 32 43 q)))"

subsection \<open>unquote_plus\<close>

primrec split_on :: "nat \<Rightarrow> nat list \<Rightarrow> nat list list" where
  \<comment> \<open>\<open>s.split(sep)\<close> for a one-character separator\<close>
  "split_on sep [] = [[]]"
| "split_on sep (x # xs) =
     (if x = sep then [] # split_on sep xs
      else (x # hd (split_on sep xs)) # tl (split_on sep xs))"

definition hex_value :: "nat \<Rightarrow> nat option" where
  \<comment> \<open>the digits of \<open>_hexdig = '0123456789ABCDEFabcdef'\<close>\<close>
  "hex_value c =
     (if 48 \<le> c \<and> c \<le> 57 then Some (c - 48)
      else if 65 \<le> c \<and> c \<le> 70 then Some (c - 55)
      else if 97 \<le> c \<and> c \<le> 102 then Some (c - 87)
      else None)"

definition hextobyte :: "nat list \<Rightarrow> nat option" where
  \<comment> \<open>the table \<open>_hextobyte\<close>: exactly the keys of two hexadecimal digits\<close>
  "hextobyte k =
     (case k of
        [a, b] \<Rightarrow> (case hex_value a of
                      None \<Rightarrow> None
                    | Some x \<Rightarrow> (case hex_value b of
                                    None \<Rightarrow> None
                                  | Some y \<Rightarrow> Some (16 * x + y)))
      | _ \<Rightarrow> None)"

definition unquote_item :: "nat list \<Rightarrow> pybytes" where
  \<comment> \<open>the body of the loop over \<open>bits[1:]\<close>\<close>
  "unquote_item item =
     (case hextobyte (take 2 item) of
        Some b \<Rightarrow> b # drop 2 item
      | None \<Rightarrow> 37 # item)"

definition unquote_to_bytes :: "pystr \<Rightarrow> pybytes" where
  \<comment> \<open>called on ASCII text only, where \<open>string.encode('utf-8')\<close> changes nothing\<close>
  "unquote_to_bytes s =
     (if s = [] then []
      else (let bits = split_on 37 s in
            if length bits = 1 then s
            else hd bits @ concat (map unquote_item (tl bits))))"

definition unquote_joined :: "pystr \<Rightarrow> pybytes" where
  \<comment> \<open>the general path of \<open>unquote_to_bytes\<close>, without its two shortcuts\<close>
  "unquote_joined s =
     hd (split_on 37 s) @ concat (map unquote_item (tl (split_on 37 s)))"

function unquote_runs :: "pystr \<Rightarrow> pystr" where
  \<comment> \<open>the loop of \<open>unquote\<close> over \<open>_asciire.split(string)\<close>: every maximal run of
      ASCII characters is unquoted and decoded, the text between runs is kept\<close>
  "unquote_runs [] = []"
| "unquote_runs (c # cs) =
     (if c < 128 then
        utf8_decode (unquote_to_bytes (takeWhile (\<lambda>x. x < 128) (c # cs)))
          @ unquote_runs (dropWhile (\<lambda>x. x < 128) cs)
      else c # unquote_runs cs)"
  by pat_completeness auto
termination
  by (relation "measure length") (auto simp: length_dropWhile_le less_Suc_eq_le)

definition unquote :: "pystr \<Rightarrow> pystr" where
  "unquote s = (if 37 \<notin> set s then s else unquote_runs s)"

definition unquote_plus :: "pystr \<Rightarrow> pystr" where
  "unquote_plus s = unquote (replace_char 43 32 s)"


fun str_of_nat :: "nat \<Rightarrow> pystr" where
  \<comment> \<open>how \<open>str.format\<close> prints a non-negative \<open>int\<close>: its decimal digits\<close>
  "str_of_nat n = (if n < 10 then [48 + n] else str_of_nat (n div 10) @ [48 + n mod 10])"

declare str_of_nat.simps [simp del]

section \<open>Settings, collaborators, requests and responses\<close>

text \<open>
  \<open>RefData\<close> rows and the citations the index returns carry a dataset, a reference
  and a body. The body and the documents of the resolvers are opaque (\<open>'d\<close>), and so
  are the document types of \<open>list_doctypes\<close> (\<open>'t\<close>).
\<close>

record 'd refdata =
  dataset :: pystr
  ref :: pystr
  body :: 'd

record docid_struct =
  docid_type :: pystr
  docid_id :: pystr

text \<open>
  An exception raised by a collaborator: whether it is an instance of
  \<open>RuntimeError\<close>, whether it is an instance of \<open>RefNotFoundError\<close> (the class
  is declared outside the views module), and \<open>str(exc)\<close>. Every such exception
  is an instance of \<open>Exception\<close>.
\<close>

record pyexc =
  is_RuntimeError :: bool
  is_RefNotFoundError :: bool
  exc_str :: pystr

record settings =
  KNOWN_DATASETS :: "pystr list"
  EXTERNAL_DATASETS :: "pystr list"
  AUTHORITATIVE_DATASETS :: "pystr list"
  SNAPSHOT :: pystr

text \<open>
  The collaborators of the views. The last field belongs to Python's URL parser:
  \<open>netloc_rejected rest\<close> says whether \<open>urlsplit\<close> raises \<open>ValueError\<close> for a
  URL whose text after the scheme is \<open>rest\<close>, starting with \<open>//\<close> (its checks of
  bracketed hosts and of the NFKC form of the network location).
\<close>

record ('d, 't) env =
  refdata_objects :: "'d refdata list"
  list_doctypes :: "'t list"
  search_refs_relaton_struct :: "docid_struct list \<Rightarrow> docid_struct \<Rightarrow> 'd refdata list"
  get_indexed_ref :: "pystr \<Rightarrow> pystr \<Rightarrow> pyexc + 'd"
  get_doi_ref :: "pystr \<Rightarrow> pyexc + 'd"
  list_refs :: "pystr \<Rightarrow> 'd refdata list"
  netloc_rejected :: "pystr \<Rightarrow> bool"

record request =
  GET :: "pystr \<rightharpoonup> pystr"
  referer :: "pystr option"

datatype ('d, 't) ctxval =
    VStr pystr
  | VStrs "pystr list"
  | VInt nat
  | VBool bool
  | VDoc 'd
  | VDoctypes "'t list"
  | VRefs "'d refdata list"

type_synonym ('d, 't) template_context = "string \<rightharpoonup> ('d, 't) ctxval"

datatype ('d, 't) response =
    Render string "('d, 't) template_context"
  | HttpResponseNotFound pystr
  | HttpResponseBadRequest pystr
  | HttpResponseRedirect pystr
  | Redirect string "pystr list"
  | ServerErrorPage

text \<open>
  \<open>Render t c\<close> is \<open>render(request, t, c)\<close>, \<open>Redirect v args\<close> is
  \<open>redirect(v, *args)\<close> to a named URL pattern, the other constructors but the
  last are Django's response classes of the same names.
\<close>

text \<open>
  Modelled from the spec: \<open>bibxml.error_views.server_error\<close> is imported by the
  views module and defined outside it. The spec calls what it returns the generic
  server-error page.
\<close>

definition server_error :: "request \<Rightarrow> ('d, 't) response" where
  "server_error request = ServerErrorPage"

datatype raised =
    Http404 pystr
  | UnicodeEncodeError
  | KeyError string
  | ValueError
  | DisallowedRedirect pystr
  | Propagated pyexc

datatype 'a result = Returns 'a | Raises raised

text \<open>
  What a view does: the response it returns or the exception that leaves it, and the
  texts it passed to \<open>messages.error\<close>, in order.
\<close>

type_synonym ('d, 't) outcome = "('d, 't) response result \<times> pystr list"

definition truthy :: "pystr option \<Rightarrow> bool" where
  \<comment> \<open>truth value of a value that is \<open>None\<close> or a \<open>str\<close>\<close>
  "truthy v = (case v of None \<Rightarrow> False | Some s \<Rightarrow> s \<noteq> [])"

definition header_referer :: "request \<Rightarrow> pystr" where
  \<comment> \<open>\<open>request.headers.get('referer', '/')\<close>\<close>
  "header_referer request = (case referer request of None \<Rightarrow> lit ''/'' | Some r \<Rightarrow> r)"

section \<open>Constructing a redirect response\<close>

text \<open>
  The form fallbacks pass the \<open>Referer\<close> header to \<open>HttpResponseRedirect\<close>.
  Django's constructor sets the \<open>Location\<close> header to \<open>iri_to_uri(redirect_to)\<close>,
  parses the URL with \<open>urlparse\<close> and raises \<open>DisallowedRedirect\<close> when it has a
  scheme other than \<open>http\<close>, \<open>https\<close> or \<open>ftp\<close>. The response
  \<open>HttpResponseRedirect u\<close> is the one constructed from the URL \<open>u\<close>.
\<close>

definition scheme_char :: "nat \<Rightarrow> bool" where
  \<comment> \<open>\<open>scheme_chars\<close>: ASCII letters, digits and \<open>+-.\<close>\<close>
  "scheme_char c =
     ((97 \<le> c \<and> c \<le> 122) \<or> (65 \<le> c \<and> c \<le> 90) \<or> (48 \<le> c \<and> c \<le> 57)
      \<or> c = 43 \<or> c = 45 \<or> c = 46)"

definition ascii_alpha :: "nat \<Rightarrow> bool" where
  \<comment> \<open>\<open>c.isascii() and c.isalpha()\<close>\<close>
  "ascii_alpha c = ((97 \<le> c \<and> c \<le> 122) \<or> (65 \<le> c \<and> c \<le> 90))"

definition ascii_lower :: "nat \<Rightarrow> nat" where
  \<comment> \<open>\<open>str.lower\<close> on a scheme character\<close>
  "ascii_lower c = (if 65 \<le> c \<and> c \<le> 90 then c + 32 else c)"

definition urlsplit_scheme :: "pystr \<Rightarrow> pystr \<times> pystr" where
  \<comment> \<open>the first part of \<open>urlsplit(url)\<close>: leading C0 control characters and spaces
      stripped, tab, carriage return and newline removed, then the scheme split off at
      the first colon; the scheme found and the rest of the URL\<close>
  "urlsplit_scheme url =
     (let url = dropWhile (\<lambda>c. c \<le> 32) url;
          url = filter (\<lambda>c. c \<noteq> 9 \<and> c \<noteq> 13 \<and> c \<noteq> 10) url;
          prefix = takeWhile (\<lambda>c. c \<noteq> 58) url
      in if 58 \<in> set url \<and> prefix \<noteq> [] \<and> ascii_alpha (hd url) \<and> list_all scheme_char prefix
         then (map ascii_lower prefix, drop (length prefix + 1) url)
         else ([], url))"

definition urlparse_scheme :: "('d, 't) env \<Rightarrow> pystr \<Rightarrow> raised + pystr" where
  \<comment> \<open>\<open>urlparse(url).scheme\<close>, or the \<open>ValueError\<close> of the parser\<close>
  "urlparse_scheme env url =
     (case urlsplit_scheme url of
        (scheme, rest) \<Rightarrow>
          if take 2 rest = lit ''//'' \<and> netloc_rejected env rest then Inl ValueError
          else Inr scheme)"

definition iri_to_uri :: "pystr \<Rightarrow> pystr option" where
  \<comment> \<open>\<open>quote(iri, safe="/#%[]=:;$&()+,!?*@'~")\<close>; \<open>None\<close> is
      \<open>UnicodeEncodeError\<close>\<close>
  "iri_to_uri iri = quote iri (lit ''/#%[]=:;$&()+,!?*@'' @ [39, 126])"

definition allowed_schemes :: "pystr list" where
  "allowed_schemes = [lit ''http'', lit ''https'', lit ''ftp'']"

definition new_HttpResponseRedirect ::
  "('d, 't) env \<Rightarrow> pystr \<Rightarrow> ('d, 't) response result" where
  \<comment> \<open>the call \<open>HttpResponseRedirect(redirect_to)\<close>\<close>
  "new_HttpResponseRedirect env redirect_to =
     (case iri_to_uri redirect_to of
        None \<Rightarrow> Raises UnicodeEncodeError
      | Some location \<Rightarrow>
          (case urlparse_scheme env redirect_to of
             Inl e \<Rightarrow> Raises e
           | Inr scheme \<Rightarrow>
               if scheme \<noteq> [] \<and> scheme \<notin> set allowed_schemes
               then Raises (DisallowedRedirect scheme)
               else Returns (HttpResponseRedirect redirect_to)))"

section \<open>The views\<close>

definition indexed_datasets :: "settings \<Rightarrow> pystr list" where
  "indexed_datasets st =
     [ds \<leftarrow> KNOWN_DATASETS st. ds \<notin> set (EXTERNAL_DATASETS st)]"

definition shared_context :: "settings \<Rightarrow> ('d, 't) template_context" where
  "shared_context st =
     [''known_datasets'' \<mapsto> VStrs (KNOWN_DATASETS st),
      ''indexed_datasets'' \<mapsto> VStrs (indexed_datasets st),
      ''external_datasets'' \<mapsto> VStrs (EXTERNAL_DATASETS st),
      ''authoritative_datasets'' \<mapsto> VStrs (AUTHORITATIVE_DATASETS st),
      ''snapshot'' \<mapsto> VStr (SNAPSHOT st)]"

definition browsable_datasets :: "('d, 't) env \<Rightarrow> settings \<Rightarrow> pystr list" where
  "browsable_datasets env st =
     (let non_empty_datasets = remdups (map dataset (refdata_objects env))
      in [ds_id \<leftarrow> indexed_datasets st. ds_id \<in> set non_empty_datasets])"

definition home :: "('d, 't) env \<Rightarrow> settings \<Rightarrow> request \<Rightarrow> ('d, 't) outcome" where
  "home env st request =
     (let total_indexed_citations = length (refdata_objects env)
      in (Returns (Render ''browse/home.html''
            ((shared_context st)
               (''total_indexed_citations'' \<mapsto> VInt total_indexed_citations,
                ''browsable_datasets'' \<mapsto> VStrs (browsable_datasets env st),
                ''doctypes'' \<mapsto> VDoctypes (list_doctypes env)))), []))"

definition citation_details ::
  "settings \<Rightarrow> pystr \<Rightarrow> pystr \<Rightarrow> 'd \<Rightarrow> ('d, 't) response" where
  \<comment> \<open>the \<open>render\<close> call the three detail views share\<close>
  "citation_details st dataset_id r data =
     Render ''browse/citation_details.html''
       ((shared_context st)
          (''dataset_id'' \<mapsto> VStr dataset_id, ''ref'' \<mapsto> VStr r, ''data'' \<mapsto> VDoc data))"

definition search_by_docid :: "('d, 't) env \<Rightarrow> pystr \<Rightarrow> pystr \<Rightarrow> 'd refdata list" where
  \<comment> \<open>the call of \<open>search_refs_relaton_struct\<close> both branches make\<close>
  "search_by_docid env doctype docid =
     search_refs_relaton_struct env
       [\<lparr>docid_type = doctype, docid_id = docid\<rparr>]
       \<lparr>docid_type = doctype, docid_id = docid\<rparr>"

definition docid_path_branch ::
  "('d, 't) env \<Rightarrow> settings \<Rightarrow> pystr \<Rightarrow> pystr \<Rightarrow> ('d, 't) outcome" where
  "docid_path_branch env st doctype docid =
     (let parsed_docid = unquote_plus docid;
          citations = search_by_docid env doctype parsed_docid;
          num_citations = length citations
      in if num_citations = 1 then
           (let citation = hd citations
            in (Returns (citation_details st (dataset citation) (ref citation) (body citation)),
                []))
         else if num_citations = 0 then
           (Returns (HttpResponseNotFound
              (lit ''Citation with docid.type '' @ doctype @ lit '' and docid.id '' @ docid
                 @ lit '' was not found in indexed sources'')), [])
         else
           (Returns (HttpResponseNotFound
              (lit ''Multiple citations with docid.type '' @ doctype @ lit '' and docid.id ''
                 @ docid @ lit '' were found in indexed sources'')), []))"

definition docid_form_fallback ::
  "('d, 't) env \<Rightarrow> request \<Rightarrow> ('d, 't) outcome" where
  "docid_form_fallback env request =
     (let doctype = GET request (lit ''doctype''); docid = GET request (lit ''docid'')
      in if \<not> truthy doctype \<or> \<not> truthy docid then
           (Returns (HttpResponseBadRequest (lit ''Missing document type and/or ID'')), [])
         else
           (let doctype = the doctype; docid = the docid;
                citations = search_by_docid env doctype docid
            in if length citations = 1 then
                 (case quote_plus docid of
                    None \<Rightarrow> (Raises UnicodeEncodeError, [])
                  | Some quoted \<Rightarrow>
                      (Returns (Redirect ''browse_citation_by_docid'' [doctype, quoted]), []))
               else
                 (new_HttpResponseRedirect env (header_referer request),
                  [lit ''No reliable match for a citation matching doctype '' @ [8220]
                     @ doctype @ [8221] @ lit '' and ID '' @ [8220] @ docid @ [8221]
                     @ lit '' among indexed datasets ('' @ str_of_nat (length citations)
                     @ lit '' matches).''])))"

definition browse_citation_by_docid ::
  "('d, 't) env \<Rightarrow> settings \<Rightarrow> request \<Rightarrow> pystr option \<Rightarrow> pystr option \<Rightarrow> ('d, 't) outcome"
  where
  "browse_citation_by_docid env st request doctype docid =
     (if truthy doctype \<and> truthy docid
      then docid_path_branch env st (the doctype) (the docid)
      else docid_form_fallback env request)"

definition external_dataset ::
  "settings \<Rightarrow> request \<Rightarrow> pystr \<Rightarrow> ('d, 't) outcome" where
  "external_dataset st request dataset_id =
     (Returns (Render ''browse/dataset.html''
        ((shared_context st)(''dataset_id'' \<mapsto> VStr dataset_id))), [])"

definition external_path_branch ::
  "('d, 't) env \<Rightarrow> settings \<Rightarrow> request \<Rightarrow> pystr \<Rightarrow> pystr \<Rightarrow> ('d, 't) outcome" where
  "external_path_branch env st request dataset_id r =
     (let parsed_ref = unquote_plus r
      in if dataset_id = lit ''doi'' then
           (case get_doi_ref env parsed_ref of
              Inl exc \<Rightarrow> (Returns (server_error request), [])
            | Inr data \<Rightarrow> (Returns (citation_details st dataset_id r data), []))
         else (Returns (HttpResponseBadRequest (lit ''Unsupported external dataset ID'')), []))"

definition external_form_fallback ::
  "('d, 't) env \<Rightarrow> settings \<Rightarrow> request \<Rightarrow> pystr \<Rightarrow> ('d, 't) outcome" where
  "external_form_fallback env st request dataset_id =
     (let r = GET request (lit ''ref'')
      in if \<not> truthy r then
           (Returns (HttpResponseBadRequest (lit ''Missing dataset ID and/or reference'')), [])
         else
           (let origin = header_referer request;
                flashed = (if dataset_id \<notin> set (EXTERNAL_DATASETS st)
                           then [lit ''Unknown external dataset '' @ dataset_id] else [])
            in if dataset_id = lit ''doi'' then
                 (let r = GET request (lit ''ref'')
                  in if truthy r then
                       (case get_doi_ref env (the r) of
                          Inl exc \<Rightarrow>
                            if is_RuntimeError exc then
                              (new_HttpResponseRedirect env origin,
                               flashed @ [lit ''Couldn'' @ [8217] @ lit ''t retrieve citation: ''
                                            @ exc_str exc])
                            else (Raises (Propagated exc), flashed)
                        | Inr data \<Rightarrow>
                            (case quote_plus (the r) of
                               None \<Rightarrow> (Raises UnicodeEncodeError, flashed)
                             | Some quoted \<Rightarrow>
                                 (Returns (Redirect ''browse_citation'' [dataset_id, quoted]),
                                  flashed)))
                     else
                       (new_HttpResponseRedirect env origin,
                        flashed @ [lit ''Missing reference to fetch {}'']))
               else
                 (new_HttpResponseRedirect env origin,
                  flashed @ [lit ''Unsupported external dataset '' @ dataset_id])))"

definition browse_external_reference ::
  "('d, 't) env \<Rightarrow> settings \<Rightarrow> request \<Rightarrow> pystr \<Rightarrow> pystr option \<Rightarrow> ('d, 't) outcome" where
  "browse_external_reference env st request dataset_id r =
     (if truthy r then external_path_branch env st request dataset_id (the r)
      else external_form_fallback env st request dataset_id)"

text \<open>
  The body of the outer \<open>try\<close> of \<open>browse_indexed_reference\<close> ends in one of three
  ways: an exception leaves it, it returns from the view, or it falls through to the
  \<open>else\<close> clause with \<open>data\<close> bound.
\<close>

datatype ('r, 'a) tried = Raised pyexc | Returned 'r | Bound 'a

definition indexed_try_body ::
  "('d, 't) env \<Rightarrow> request \<Rightarrow> pystr \<Rightarrow> pystr \<Rightarrow> (('d, 't) response, 'd) tried" where
  "indexed_try_body env request dataset_id parsed_ref =
     (if dataset_id = lit ''doi'' then
        (case get_doi_ref env parsed_ref of
           Inl exc \<Rightarrow> Returned (server_error request)
         | Inr data \<Rightarrow> Bound data)
      else
        (case get_indexed_ref env dataset_id parsed_ref of
           Inl exc \<Rightarrow> Raised exc
         | Inr data \<Rightarrow> Bound data))"

definition browse_indexed_reference ::
  "('d, 't) env \<Rightarrow> settings \<Rightarrow> request \<Rightarrow> pystr \<Rightarrow> pystr \<Rightarrow> ('d, 't) outcome" where
  "browse_indexed_reference env st request dataset_id r =
     (let parsed_ref = unquote_plus r
      in case indexed_try_body env request dataset_id parsed_ref of
           Raised exc \<Rightarrow>
             if is_RefNotFoundError exc then
               (Raises (Http404
                  (lit ''Requested reference '' @ [8220] @ parsed_ref @ [8221]
                     @ lit '' could not be found in dataset '' @ [8220] @ dataset_id @ [8221]
                     @ lit '' (or external source is unavailable)'')), [])
             else (Raises (Propagated exc), [])
         | Returned response \<Rightarrow> (Returns response, [])
         | Bound data \<Rightarrow> (Returns (citation_details st dataset_id r data), []))"


section \<open>The indexed-dataset list view\<close>

text \<open>
  \<open>IndexedDatasetCitationListView\<close> sets \<open>paginate_by\<close> and the template and
  overrides \<open>get_queryset\<close> and \<open>get_context_data\<close>; Django's generic
  \<open>ListView\<close> does the rest. Its part is embedded as far as the object list goes:
  the page requested (\<open>page_param\<close>: what the \<open>page\<close> parameter parses to), the
  paginator with no orphans and an empty first page allowed, and the context entries
  \<open>is_paginated\<close>, \<open>object_list\<close> and \<open>refdata_list\<close>. The paginator and
  page objects and the texts of the framework's \<open>Http404\<close> are left out.
\<close>

definition paginate_by :: nat where
  "paginate_by = 20"

definition template_name :: string where
  "template_name = ''browse/dataset.html''"

definition get_queryset ::
  "('d, 't) env \<Rightarrow> (string \<rightharpoonup> pystr) \<Rightarrow> raised + 'd refdata list" where
  "get_queryset env kwargs =
     (case kwargs ''dataset_id'' of
        None \<Rightarrow> Inl (KeyError ''dataset_id'')
      | Some dataset_id \<Rightarrow> Inr (list_refs env dataset_id))"

datatype page_param = PageNumber int | PageLast | PageInvalid

definition num_pages :: "nat \<Rightarrow> nat \<Rightarrow> nat" where
  \<comment> \<open>\<open>Paginator.num_pages\<close>: \<open>ceil(max(1, count) / per_page)\<close>\<close>
  "num_pages count per_page = (max 1 count + per_page - 1) div per_page"

definition page_object_list :: "'a list \<Rightarrow> nat \<Rightarrow> nat \<Rightarrow> 'a list" where
  \<comment> \<open>\<open>Paginator.page(number).object_list\<close>: the slice \<open>object_list[bottom:top]\<close>\<close>
  "page_object_list object_list per_page number =
     (let bottom = (number - 1) * per_page;
          top = (if length object_list \<le> bottom + per_page then length object_list
                 else bottom + per_page)
      in take (top - bottom) (drop bottom object_list))"

definition paginate_queryset ::
  "'a list \<Rightarrow> nat \<Rightarrow> page_param \<Rightarrow> raised + ('a list \<times> bool)" where
  \<comment> \<open>\<open>MultipleObjectMixin.paginate_queryset\<close>: the page's objects and
      \<open>page.has_other_pages()\<close>, or \<open>Http404\<close> for a page that does not exist\<close>
  "paginate_queryset queryset page_size page =
     (let pages = num_pages (length queryset) page_size
      in case (case page of
                 PageNumber n \<Rightarrow> Some n
               | PageLast \<Rightarrow> Some (int pages)
               | PageInvalid \<Rightarrow> None) of
           None \<Rightarrow> Inl (Http404 (lit ''Invalid page''))
         | Some page_number \<Rightarrow>
             if page_number < 1 \<or> int pages < page_number
             then Inl (Http404 (lit ''Invalid page''))
             else Inr (page_object_list queryset page_size (nat page_number), 1 < pages))"

definition list_view_context ::
  "'d refdata list \<Rightarrow> page_param \<Rightarrow> raised + ('d, 't) template_context" where
  \<comment> \<open>\<open>super().get_context_data()\<close> for this class\<close>
  "list_view_context queryset page =
     (case paginate_queryset queryset paginate_by page of
        Inl e \<Rightarrow> Inl e
      | Inr (page_list, is_paginated) \<Rightarrow>
          Inr [''is_paginated'' \<mapsto> VBool is_paginated,
               ''object_list'' \<mapsto> VRefs page_list,
               ''refdata_list'' \<mapsto> VRefs page_list])"

definition get_context_data ::
  "settings \<Rightarrow> (string \<rightharpoonup> pystr) \<Rightarrow> 'd refdata list \<Rightarrow> page_param
     \<Rightarrow> raised + ('d, 't) template_context" where
  "get_context_data st kwargs queryset page =
     (case list_view_context queryset page of
        Inl e \<Rightarrow> Inl e
      | Inr super_context \<Rightarrow>
          (case kwargs ''dataset_id'' of
             None \<Rightarrow> Inl (KeyError ''dataset_id'')
           | Some dataset_id \<Rightarrow>
               Inr (super_context ++ [''dataset_id'' \<mapsto> VStr dataset_id] ++ shared_context st)))"

definition IndexedDatasetCitationListView ::
  "('d, 't) env \<Rightarrow> settings \<Rightarrow> (string \<rightharpoonup> pystr) \<Rightarrow> page_param \<Rightarrow> ('d, 't) outcome" where
  \<comment> \<open>a GET request to the view: \<open>BaseListView.get\<close> around the two methods\<close>
  "IndexedDatasetCitationListView env st kwargs page =
     (case get_queryset env kwargs of
        Inl e \<Rightarrow> (Raises e, [])
      | Inr object_list \<Rightarrow>
          (case get_context_data st kwargs object_list page of
             Inl e \<Rightarrow> (Raises e, [])
           | Inr context \<Rightarrow> (Returns (Render template_name context), [])))"

section \<open>Example data\<close>

text \<open>A small index, settings and a few requests, to run the views on concrete inputs.\<close>

definition example_settings :: settings where
  "example_settings =
     \<lparr>KNOWN_DATASETS = [lit ''rfcs'', lit ''doi'', lit ''misc''],
      EXTERNAL_DATASETS = [lit ''doi''],
      AUTHORITATIVE_DATASETS = [lit ''rfcs''],
      SNAPSHOT = lit ''v1''\<rparr>"

definition example_citation :: "nat refdata" where
  "example_citation = \<lparr>dataset = lit ''rfcs'', ref = lit ''rfc1'', body = 7\<rparr>"

definition example_error :: pyexc where
  "example_error =
     \<lparr>is_RuntimeError = True, is_RefNotFoundError = True, exc_str = lit ''gone''\<rparr>"

definition example_env :: "(nat, nat) env" where
  "example_env =
     \<lparr>refdata_objects = [example_citation],
      list_doctypes = [0],
      search_refs_relaton_struct =
        (\<lambda>query secondary.
           if docid_id secondary = lit ''a b'' then [example_citation]
           else if docid_id secondary = lit ''dup'' then [example_citation, example_citation]
           else []),
      get_indexed_ref =
        (\<lambda>dataset_id r. if r = lit ''rfc1'' then Inr 7 else Inl example_error),
      get_doi_ref = (\<lambda>r. if r = lit ''10.1/x'' then Inr 8 else Inl example_error),
      list_refs = (\<lambda>dataset_id. replicate 45 example_citation),
      netloc_rejected = (\<lambda>rest. False)\<rparr>"

definition example_request :: request where
  "example_request = \<lparr>GET = Map.empty, referer = None\<rparr>"

definition example_form :: request where
  "example_form =
     \<lparr>GET = [lit ''doctype'' \<mapsto> lit ''rfc'', lit ''docid'' \<mapsto> lit ''zz'',
             lit ''ref'' \<mapsto> lit ''10.9/y''],
      referer = Some (lit ''/search'')\<rparr>"

definition script_form :: request where
  "script_form =
     \<lparr>GET = [lit ''doctype'' \<mapsto> lit ''rfc'', lit ''docid'' \<mapsto> lit ''zz'',
             lit ''ref'' \<mapsto> lit ''10.9/y''],
      referer = Some (lit ''javascript:alert(1)'')\<rparr>"

definition spaced_form :: request where
  "spaced_form =
     \<lparr>GET = [lit ''doctype'' \<mapsto> lit ''rfc'', lit ''docid'' \<mapsto> lit ''a b'',
             lit ''ref'' \<mapsto> lit ''10.9/y''],
      referer = None\<rparr>"

definition example_kwargs :: "string \<rightharpoonup> pystr" where
  "example_kwargs = [''dataset_id'' \<mapsto> lit ''rfcs'']"

section \<open>URL quoting: decoding undoes encoding\<close>

lemma code_point_digits3: 
  fixes c :: nat
  shows "c = (c div 4096) * 4096 + ((c div 64) mod 64) * 64 + c mod 64"
proof -
  have "c div 4096 = c div (64 * 64)" by simp
  also have "\<dots> = c div 64 div 64" by (rule div_mult2_eq)
  finally have a: "c div 4096 = c div 64 div 64" .
  have "c div 64 = (c div 64 div 64) * 64 + (c div 64) mod 64" by simp
  moreover have "c = (c div 64) * 64 + c mod 64" by simp
  ultimately show ?thesis using a by linarith
qed

lemma code_point_digits4: 
  fixes c :: nat
  shows "c = (c div 262144) * 262144 + ((c div 4096) mod 64) * 4096 + ((c div 64) mod 64) * 64 + c mod 64"
proof -
  have "c div 262144 = c div (4096 * 64)" by simp
  also have "\<dots> = c div 4096 div 64" by (rule div_mult2_eq)
  finally have a: "c div 262144 = c div 4096 div 64" .
  have "c div 4096 = (c div 4096 div 64) * 64 + (c div 4096) mod 64" by simp
  then show ?thesis using a code_point_digits3[of c] by linarith
qed


lemma decode_step_ascii: "c < 128 \<Longrightarrow> utf8_decode_step c rest = (c, 0)"
  by (simp add: utf8_decode_step_def)

lemma decode_step_two:
  "2 \<le> a \<Longrightarrow> a < 32 \<Longrightarrow> d < 64 \<Longrightarrow>
   utf8_decode_step (192 + a) ((128 + d) # rest) = (a * 64 + d, 1)"
  by (simp add: utf8_decode_step_def is_continuation_def)

lemma decode_step_three:
  "a < 16 \<Longrightarrow> b < 64 \<Longrightarrow> d < 64 \<Longrightarrow> (a = 0 \<longrightarrow> 32 \<le> b) \<Longrightarrow> (a = 13 \<longrightarrow> b < 32) \<Longrightarrow>
   utf8_decode_step (224 + a) ((128 + b) # (128 + d) # rest) = (a * 4096 + b * 64 + d, 2)"
  by (auto simp add: utf8_decode_step_def is_continuation_def)

lemma decode_step_four:
  "a < 5 \<Longrightarrow> b < 64 \<Longrightarrow> e < 64 \<Longrightarrow> d < 64 \<Longrightarrow> (a = 0 \<longrightarrow> 16 \<le> b) \<Longrightarrow> (a = 4 \<longrightarrow> b < 16) \<Longrightarrow>
   utf8_decode_step (240 + a) ((128 + b) # (128 + e) # (128 + d) # rest)
     = (a * 262144 + b * 4096 + e * 64 + d, 3)"
  by (auto simp add: utf8_decode_step_def is_continuation_def)

lemma utf8_decode_encode_char:
  assumes "utf8_encode_char c = Some bs"
  shows "utf8_decode (bs @ rest) = c # utf8_decode rest"
proof -
  define a3 where "a3 = c div 4096"
  define a4 where "a4 = c div 262144"
  define b4 where "b4 = (c div 4096) mod 64"
  define e where "e = (c div 64) mod 64"
  define d where "d = c mod 64"
  define a2 where "a2 = c div 64"
  have s2: "c = a2 * 64 + d" by (simp add: a2_def d_def)
  have s3: "c = a3 * 4096 + e * 64 + d" unfolding a3_def e_def d_def by (rule code_point_digits3)
  have s4: "c = a4 * 262144 + b4 * 4096 + e * 64 + d"
    unfolding a4_def b4_def e_def d_def by (rule code_point_digits4)
  have bd: "b4 < 64" "e < 64" "d < 64" by (simp_all add: b4_def e_def d_def)
  consider (a) "c < 0x80" | (b) "0x80 \<le> c" "c < 0x800"
    | (c) "0x800 \<le> c" "c < 0x10000" "\<not> is_surrogate c"
    | (d) "0x10000 \<le> c" "c \<le> 0x10FFFF"
    using assms by (auto simp: utf8_encode_char_def split: if_splits)
  then show ?thesis
  proof cases
    case a
    then have "bs = [c]" using assms by (simp add: utf8_encode_char_def)
    then show ?thesis using a by (simp add: decode_step_ascii)
  next
    case b
    then have bs: "bs = [192 + a2, 128 + d]"
      using assms by (simp add: utf8_encode_char_def a2_def d_def)
    have "2 \<le> a2" "a2 < 32" using b s2 bd by linarith+
    then show ?thesis unfolding bs using bd s2 by (simp add: decode_step_two)
  next
    case c
    then have bs: "bs = [224 + a3, 128 + e, 128 + d]"
      using assms by (simp add: utf8_encode_char_def a3_def e_def d_def)
    have r: "a3 < 16" using c s3 bd by linarith
    have e0: "a3 = 0 \<longrightarrow> 32 \<le> e" using c s3 bd by auto
    have ed: "a3 = 13 \<longrightarrow> e < 32" using c s3 bd unfolding is_surrogate_def by auto
    show ?thesis unfolding bs using r e0 ed bd s3 by (simp add: decode_step_three)
  next
    case d
    then have bs: "bs = [240 + a4, 128 + b4, 128 + e, 128 + d]"
      using assms by (simp add: utf8_encode_char_def a4_def b4_def e_def d_def)
    have r: "a4 < 5" using d s4 bd by linarith
    have e0: "a4 = 0 \<longrightarrow> 16 \<le> b4" using d s4 bd by auto
    have ed: "a4 = 4 \<longrightarrow> b4 < 16" using d s4 bd by auto
    show ?thesis unfolding bs using r e0 ed bd s4 by (simp add: decode_step_four)
  qed
qed

lemma utf8_decode_encode: "utf8_encode s = Some bs \<Longrightarrow> utf8_decode bs = s"
proof (induction s arbitrary: bs)
  case Nil then show ?case by simp
next
  case (Cons c cs)
  then show ?case by (auto split: option.splits simp: utf8_decode_encode_char simp del: utf8_decode.simps)
qed

lemma utf8_encode_char_total: "c \<le> 0x10FFFF \<Longrightarrow> \<not> is_surrogate c \<Longrightarrow> \<exists>bs. utf8_encode_char c = Some bs"
  by (simp add: utf8_encode_char_def)

lemma utf8_encode_total: "encodable s \<Longrightarrow> \<exists>bs. utf8_encode s = Some bs"
  by (induction s) (auto simp: encodable_def dest: utf8_encode_char_total split: option.splits)

lemma utf8_encode_char_bytes: "utf8_encode_char c = Some bs \<Longrightarrow> list_all (\<lambda>b. b < 256) bs"
  by (auto simp: utf8_encode_char_def split: if_splits)

lemma utf8_encode_bytes: "utf8_encode s = Some bs \<Longrightarrow> list_all (\<lambda>b. b < 256) bs"
  by (induction s arbitrary: bs) (auto split: option.splits dest: utf8_encode_char_bytes)

lemma split_on_nonempty: "split_on sep s \<noteq> []"
  by (induction s) auto

lemma split_on_single: "length (split_on sep s) = 1 \<Longrightarrow> hd (split_on sep s) = s"
proof (induction s)
  case Nil then show ?case by simp
next
  case (Cons x xs)
  have ne: "split_on sep xs \<noteq> []" by (rule split_on_nonempty)
  show ?case
  proof (cases "x = sep")
    case True
    with Cons.prems ne show ?thesis by simp
  next
    case False
    with Cons.prems ne have "length (split_on sep xs) = 1"
      by (cases "split_on sep xs") auto
    with Cons.IH False show ?thesis by simp
  qed
qed

lemma unquote_to_bytes_joined: "unquote_to_bytes s = unquote_joined s"
proof (cases "length (split_on 37 s) = 1")
  case True
  then have "hd (split_on 37 s) = s" by (rule split_on_single)
  moreover from True have "tl (split_on 37 s) = []" by (cases "split_on 37 s") auto
  ultimately show ?thesis using True by (simp add: unquote_to_bytes_def unquote_joined_def Let_def)
next
  case False
  then show ?thesis by (auto simp: unquote_to_bytes_def unquote_joined_def Let_def)
qed

lemma unquote_joined_Nil: "unquote_joined [] = []"
  by (simp add: unquote_joined_def)

lemma unquote_joined_plain: "c \<noteq> 37 \<Longrightarrow> unquote_joined (c # s) = c # unquote_joined s"
  by (simp add: unquote_joined_def)

lemma hex_value_37: "hex_value 37 = None"
  by (simp add: hex_value_def)

lemma unquote_joined_escape:
  assumes "hex_value h1 = Some x" "hex_value h2 = Some y"
  shows "unquote_joined (37 # h1 # h2 # s) = (16 * x + y) # unquote_joined s"
proof -
  have "h1 \<noteq> 37" "h2 \<noteq> 37" using assms hex_value_37 by auto
  then show ?thesis using assms
    by (simp add: unquote_joined_def unquote_item_def hextobyte_def)
qed

lemma hex_value_hex_digit: "d < 16 \<Longrightarrow> hex_value (hex_digit d) = Some d"
  by (auto simp: hex_value_def hex_digit_def)

lemma unquote_joined_quoter:
  assumes "b < 256" "37 \<notin> set safe"
  shows "unquote_joined (quoter safe b @ s) = b # unquote_joined s"
proof (cases "always_safe b \<or> b \<in> set safe")
  case True
  then have "b \<noteq> 37" using assms by (auto simp: always_safe_def)
  with True show ?thesis by (simp add: quoter_def unquote_joined_plain)
next
  case False
  have "b div 16 < 16" "b mod 16 < 16" using assms by auto
  then have "unquote_joined (37 # hex_digit (b div 16) # hex_digit (b mod 16) # s)
      = (16 * (b div 16) + b mod 16) # unquote_joined s"
    by (intro unquote_joined_escape hex_value_hex_digit)
  with False show ?thesis by (simp add: quoter_def)
qed

lemma unquote_joined_quoted:
  "list_all (\<lambda>b. b < 256) bs \<Longrightarrow> 37 \<notin> set safe \<Longrightarrow> unquote_joined (concat (map (quoter safe) bs)) = bs"
  by (induction bs) (simp_all add: unquote_joined_Nil unquote_joined_quoter)

lemma quote_from_bytes_concat: "quote_from_bytes bs safe = concat (map (quoter safe) bs)"
proof -
  have "list_all (\<lambda>b. always_safe b \<or> b \<in> set safe) bs \<Longrightarrow> concat (map (quoter safe) bs) = bs"
    by (induction bs) (simp_all add: quoter_def)
  then show ?thesis by (auto simp: quote_from_bytes_def)
qed

lemma hex_digit_range: "d < 16 \<Longrightarrow> hex_digit d < 128 \<and> hex_digit d \<noteq> 43 \<and> hex_digit d \<noteq> 32"
  by (auto simp: hex_digit_def)

lemma quoter_chars:
  assumes "b < 256" "set safe \<subseteq> {32}" "c \<in> set (quoter safe b)"
  shows "c < 128 \<and> c \<noteq> 43 \<and> (c = 32 \<longrightarrow> b = 32 \<and> 32 \<in> set safe)"
proof (cases "always_safe b \<or> b \<in> set safe")
  case True
  then show ?thesis using assms by (auto simp: quoter_def always_safe_def)
next
  case False
  have "b div 16 < 16" "b mod 16 < 16" using assms by auto
  then show ?thesis using False assms(3) hex_digit_range by (auto simp: quoter_def)
qed

lemma quoted_chars:
  assumes "list_all (\<lambda>b. b < 256) bs" "set safe \<subseteq> {32}"
    and "c \<in> set (concat (map (quoter safe) bs))"
  shows "c < 128 \<and> c \<noteq> 43 \<and> (c = 32 \<longrightarrow> 32 \<in> set safe)"
  using assms quoter_chars by (fastforce simp: list_all_iff)

lemma utf8_decode_ascii: "list_all (\<lambda>c. c < 128) q \<Longrightarrow> utf8_decode q = q"
  by (induction q) (simp_all add: decode_step_ascii)

lemma split_on_absent: "sep \<notin> set s \<Longrightarrow> split_on sep s = [s]"
  by (induction s) auto

lemma unquote_joined_no_percent: "37 \<notin> set q \<Longrightarrow> unquote_joined q = q"
  by (simp add: unquote_joined_def split_on_absent)

lemma unquote_ascii:
  assumes "list_all (\<lambda>c. c < 128) q"
  shows "unquote q = utf8_decode (unquote_joined q)"
proof (cases "37 \<in> set q")
  case False
  then show ?thesis using assms by (simp add: unquote_def unquote_joined_no_percent utf8_decode_ascii)
next
  case True
  then obtain c cs where q: "q = c # cs" by (cases q) auto
  have "\<forall>x\<in>set (c # cs). x < 128" using assms q by (simp add: list_all_iff)
  then have "takeWhile (\<lambda>x. x < 128) (c # cs) = c # cs" "dropWhile (\<lambda>x. x < 128) cs = []"
    by (simp_all del: takeWhile.simps)
  moreover have "c < 128" using assms q by simp
  ultimately have "unquote_runs (c # cs) = utf8_decode (unquote_to_bytes (c # cs))"
    by (simp only: unquote_runs.simps if_True append_Nil2)
  then show ?thesis using True q by (simp add: unquote_def unquote_to_bytes_joined)
qed

lemma replace_char_absent: "a \<notin> set s \<Longrightarrow> replace_char a b s = s"
  by (induction s) (auto simp: replace_char_def)

lemma replace_char_inverse: "b \<notin> set s \<Longrightarrow> replace_char b a (replace_char a b s) = s"
  by (induction s) (auto simp: replace_char_def)

lemma unquote_plus_quote_plus: "quote_plus s = Some q \<Longrightarrow> unquote_plus q = s"
proof (cases "s = []")
  case True
  assume "quote_plus s = Some q"
  with True have "q = []" by (simp add: quote_plus_def quote_def)
  with True show ?thesis by (simp add: unquote_plus_def unquote_def replace_char_def)
next
  case False
  note nonempty = False
  assume qp: "quote_plus s = Some q"
  then obtain bs where enc: "utf8_encode s = Some bs"
    using False by (auto simp: quote_plus_def quote_def split: if_splits option.splits)
  have bytes: "list_all (\<lambda>b. b < 256) bs" using enc by (rule utf8_encode_bytes)
  define safe :: "nat list" where "safe = (if 32 \<notin> set s then [] else [32])"
  define q0 where "q0 = concat (map (quoter safe) bs)"
  have safe: "set safe \<subseteq> {32}" "37 \<notin> set safe" by (auto simp: safe_def)
  have chars: "\<And>c. c \<in> set q0 \<Longrightarrow> c < 128 \<and> c \<noteq> 43 \<and> (c = 32 \<longrightarrow> 32 \<in> set safe)"
    unfolding q0_def using bytes safe(1) by (rule quoted_chars)
  have no_plus: "43 \<notin> set q0" using chars by blast
  have undo_plus: "replace_char 43 32 q = q0"
  proof (cases "32 \<in> set s")
    case True
    then have "q = replace_char 32 43 q0"
      using qp enc nonempty by (simp add: quote_plus_def quote_def quote_from_bytes_concat q0_def safe_def)
    then show ?thesis using no_plus by (simp add: replace_char_inverse)
  next
    case False
    then have "q = q0"
      using qp enc nonempty by (simp add: quote_plus_def quote_def quote_from_bytes_concat q0_def safe_def)
    then show ?thesis using no_plus by (simp add: replace_char_absent)
  qed
  have "list_all (\<lambda>c. c < 128) q0" using chars by (simp add: list_all_iff)
  then have "unquote q0 = utf8_decode (unquote_joined q0)" by (rule unquote_ascii)
  also have "unquote_joined q0 = bs" unfolding q0_def using bytes safe(2) by (rule unquote_joined_quoted)
  also have "utf8_decode bs = s" using enc by (rule utf8_decode_encode)
  finally show ?thesis using undo_plus by (simp add: unquote_plus_def)
qed

lemma quote_plus_total: "encodable s \<Longrightarrow> \<exists>q. quote_plus s = Some q"
  using utf8_encode_total[of s] by (auto simp: quote_plus_def quote_def)

lemma quote_plus_nonempty: "quote_plus s = Some q \<Longrightarrow> s \<noteq> [] \<Longrightarrow> q \<noteq> []"
  using unquote_plus_quote_plus[of s q] by (auto simp: unquote_plus_def unquote_def replace_char_def)

subsection \<open>Decoding gives strings that can be encoded again\<close>

lemma decode_value_three:
  assumes "224 \<le> ch" "ch < 240" "128 \<le> ch2" "ch2 < 192" "128 \<le> ch3" "ch3 < 192"
    and "\<not> (ch = 237 \<and> 160 \<le> ch2)"
  shows "(ch - 224) * 4096 + (ch2 - 128) * 64 + (ch3 - 128) \<le> 1114111
     \<and> \<not> is_surrogate ((ch - 224) * 4096 + (ch2 - 128) * 64 + (ch3 - 128))"
proof -
  define a b d where "a = ch - 224" and "b = ch2 - 128" and "d = ch3 - 128"
  have r: "a < 16" "b < 64" "d < 64" "a = 13 \<longrightarrow> b < 32"
    using assms by (auto simp: a_def b_def d_def)
  consider "a \<le> 12" | "a = 13" | "14 \<le> a" by linarith
  then have "a * 4096 + b * 64 + d < 55296 \<or> 57343 < a * 4096 + b * 64 + d"
    using r by cases auto
  moreover have "a * 4096 + b * 64 + d \<le> 1114111" using r by linarith
  ultimately show ?thesis unfolding a_def b_def d_def is_surrogate_def by linarith
qed

lemma decode_value_four:
  assumes "240 \<le> ch" "ch < 245" "128 \<le> ch2" "ch2 < 192" "128 \<le> ch3" "ch3 < 192"
    "128 \<le> ch4" "ch4 < 192" and "\<not> (ch = 244 \<and> 144 \<le> ch2)" and "\<not> (ch = 240 \<and> ch2 < 144)"
  shows "(ch - 240) * 262144 + (ch2 - 128) * 4096 + (ch3 - 128) * 64 + (ch4 - 128) \<le> 1114111
     \<and> \<not> is_surrogate ((ch - 240) * 262144 + (ch2 - 128) * 4096 + (ch3 - 128) * 64 + (ch4 - 128))"
proof -
  define a b e d where "a = ch - 240" and "b = ch2 - 128" and "e = ch3 - 128" and "d = ch4 - 128"
  have r: "a < 5" "b < 64" "e < 64" "d < 64" "a = 4 \<longrightarrow> b < 16" "a = 0 \<longrightarrow> 16 \<le> b"
    using assms by (auto simp: a_def b_def e_def d_def)
  consider "a = 0" | "1 \<le> a" "a \<le> 3" | "a = 4" using r(1) by linarith
  then have "65536 \<le> a * 262144 + b * 4096 + e * 64 + d
      \<and> a * 262144 + b * 4096 + e * 64 + d \<le> 1114111"
    using r by cases auto
  then show ?thesis unfolding a_def b_def e_def d_def is_surrogate_def by linarith
qed

lemma utf8_decode_step_encodable:
  assumes "utf8_decode_step ch s = (c, n)"
  shows "c \<le> 1114111 \<and> \<not> is_surrogate c"
proof -
  have rep: "replacement_char \<le> 1114111 \<and> \<not> is_surrogate replacement_char"
    by (simp add: replacement_char_def is_surrogate_def)
  consider (a) "ch < 128" | (b) "128 \<le> ch" "ch < 224" | (c) "224 \<le> ch" "ch < 240"
    | (d) "240 \<le> ch" "ch < 245" | (e) "245 \<le> ch" by linarith
  then show ?thesis
  proof cases
    case a
    with assms show ?thesis by (auto simp: utf8_decode_step_def is_surrogate_def)
  next
    case b
    with assms rep show ?thesis
      by (auto simp: utf8_decode_step_def is_continuation_def is_surrogate_def
          split: if_splits list.splits)
  next
    case c
    with assms rep decode_value_three[of ch] show ?thesis
      by (auto simp: utf8_decode_step_def is_continuation_def split: if_splits list.splits)
  next
    case d
    with assms rep decode_value_four[of ch] show ?thesis
      by (auto simp: utf8_decode_step_def is_continuation_def split: if_splits list.splits)
  next
    case e
    with assms rep show ?thesis by (auto simp: utf8_decode_step_def)
  qed
qed

lemma encodable_utf8_decode: "encodable (utf8_decode bs)"
proof (induction bs rule: utf8_decode.induct)
  case 1
  show ?case by (simp add: encodable_def)
next
  case (2 ch s)
  obtain c n where st: "utf8_decode_step ch s = (c, n)" by (cases "utf8_decode_step ch s")
  from 2[OF st[symmetric]] have "encodable (utf8_decode (drop n s))" .
  with utf8_decode_step_encodable[OF st] st show ?case by (simp add: encodable_def)
qed

lemma encodable_unquote_runs: "encodable s \<Longrightarrow> encodable (unquote_runs s)"
proof (induction s rule: unquote_runs.induct)
  case 1
  show ?case by (simp add: encodable_def)
next
  case (2 c cs)
  show ?case
  proof (cases "c < 128")
    case True
    have "set (dropWhile (\<lambda>x. x < 128) cs) \<subseteq> set cs" by (rule set_dropWhileD[THEN subsetI])
    with "2.prems" have "encodable (dropWhile (\<lambda>x. x < 128) cs)"
      by (auto simp: encodable_def list_all_iff)
    with True "2.IH"(1) have "encodable (unquote_runs (dropWhile (\<lambda>x. x < 128) cs))" by simp
    moreover have "encodable (utf8_decode (unquote_to_bytes (takeWhile (\<lambda>x. x < 128) (c # cs))))"
      by (rule encodable_utf8_decode)
    ultimately show ?thesis using True by (simp add: encodable_def del: takeWhile.simps)
  next
    case False
    with "2.prems" "2.IH"(2) show ?thesis by (simp add: encodable_def)
  qed
qed

lemma unquote_plus_encodable: "encodable s \<Longrightarrow> encodable (unquote_plus s)"
proof -
  assume e: "encodable s"
  have "encodable (replace_char 43 32 s)"
    using e by (auto simp: encodable_def replace_char_def list_all_iff is_surrogate_def)
  then show ?thesis by (simp add: unquote_plus_def unquote_def encodable_unquote_runs)
qed

section \<open>Helper facts about the views\<close>

lemma truthy_Some [simp]: "truthy (Some s) = (s \<noteq> [])"
  by (simp add: truthy_def)

lemma truthy_None [simp]: "\<not> truthy None"
  by (simp add: truthy_def)

lemma page_object_list_slice:
  "page_object_list xs p n = take p (drop ((n - 1) * p) xs)"
  by (simp add: page_object_list_def Let_def)

lemma length_page_object_list: "length (page_object_list xs p n) \<le> p"
  by (simp add: page_object_list_slice)

lemma concat_slices: "concat (map (\<lambda>k. take p (drop (k * p) xs)) [0..<m]) = take (m * p) xs"
proof (induction m)
  case 0 then show ?case by simp
next
  case (Suc m)
  have "take (m * p) xs @ take p (drop (m * p) xs) = take (m * p + p) xs"
    by (simp add: take_add)
  with Suc show ?case by (simp add: add.commute)
qed

lemma pages_shift:
  "map (page_object_list xs p) [1..<Suc m] = map (\<lambda>k. take p (drop (k * p) xs)) [0..<m]"
proof -
  have "[1..<Suc m] = map Suc [0..<m]" by (simp add: map_Suc_upt)
  then show ?thesis by (simp add: page_object_list_slice comp_def)
qed

lemma num_pages_covers: "0 < p \<Longrightarrow> n \<le> num_pages n p * p"
proof -
  assume p: "0 < p"
  define k where "k = max 1 n + p - 1"
  have "k = (k div p) * p + k mod p" by simp
  moreover have "k mod p < p" using p by simp
  ultimately have "k < (k div p) * p + p" by linarith
  then show ?thesis unfolding num_pages_def k_def[symmetric] using k_def by linarith
qed

lemma concat_pages:
  "0 < p \<Longrightarrow> concat (map (page_object_list xs p) [1..<Suc (num_pages (length xs) p)]) = xs"
  by (simp only: pages_shift concat_slices) (simp add: num_pages_covers)

lemma paginate_queryset_Inr:
  assumes "paginate_queryset xs p page = Inr (objs, ip)"
  shows "\<exists>n. 1 \<le> n \<and> n \<le> num_pages (length xs) p \<and> objs = page_object_list xs p n"
proof (cases page)
  case (PageNumber x)
  with assms have "1 \<le> x" "x \<le> int (num_pages (length xs) p)"
      "objs = page_object_list xs p (nat x)"
    by (auto simp: paginate_queryset_def Let_def split: if_splits)
  then have "1 \<le> nat x \<and> nat x \<le> num_pages (length xs) p
      \<and> objs = page_object_list xs p (nat x)"
    by linarith
  then show ?thesis ..
next
  case PageLast
  with assms have "1 \<le> num_pages (length xs) p"
      "objs = page_object_list xs p (num_pages (length xs) p)"
    by (auto simp: paginate_queryset_def Let_def split: if_splits)
  then show ?thesis by blast
next
  case PageInvalid
  with assms show ?thesis by (simp add: paginate_queryset_def)
qed

lemma shared_context_other [simp]:
  "shared_context st ''dataset_id'' = None"
  "shared_context st ''object_list'' = None"
  by (simp_all add: shared_context_def)

lemma iri_to_uri_encodable: "encodable u \<Longrightarrow> \<exists>location. iri_to_uri u = Some location"
  using utf8_encode_total[of u] by (auto simp: iri_to_uri_def quote_def)

lemma new_HttpResponseRedirect_accepted:
  assumes "encodable u" and "urlparse_scheme env u = Inr scheme"
    and "scheme = [] \<or> scheme \<in> set allowed_schemes"
  shows "new_HttpResponseRedirect env u = Returns (HttpResponseRedirect u)"
proof -
  obtain location where "iri_to_uri u = Some location"
    using assms(1) iri_to_uri_encodable by blast
  then show ?thesis using assms(2,3) by (auto simp: new_HttpResponseRedirect_def)
qed

lemma new_HttpResponseRedirect_disallowed:
  assumes "encodable u" and "urlparse_scheme env u = Inr scheme"
    and "scheme \<noteq> []" and "scheme \<notin> set allowed_schemes"
  shows "new_HttpResponseRedirect env u = Raises (DisallowedRedirect scheme)"
proof -
  obtain location where "iri_to_uri u = Some location"
    using assms(1) iri_to_uri_encodable by blast
  then show ?thesis using assms(2,3,4) by (simp add: new_HttpResponseRedirect_def)
qed

lemma encodable_root: "encodable (lit ''/'')"
  by (simp add: encodable_def lit_def is_surrogate_def)

lemma urlparse_scheme_root: "urlparse_scheme env (lit ''/'') = Inr []"
  by (simp add: urlparse_scheme_def urlsplit_scheme_def lit_def)

lemma new_HttpResponseRedirect_root:
  "new_HttpResponseRedirect env (lit ''/'') = Returns (HttpResponseRedirect (lit ''/''))"
  using encodable_root urlparse_scheme_root by (rule new_HttpResponseRedirect_accepted) simp

lemma encodable_search: "encodable (lit ''/search'')"
  by (simp add: encodable_def lit_def is_surrogate_def)

lemma urlparse_scheme_search: "urlparse_scheme example_env (lit ''/search'') = Inr []"
  by (simp add: urlparse_scheme_def urlsplit_scheme_def lit_def)

lemma new_HttpResponseRedirect_search:
  "new_HttpResponseRedirect example_env (lit ''/search'')
     = Returns (HttpResponseRedirect (lit ''/search''))"
  using encodable_search urlparse_scheme_search by (rule new_HttpResponseRedirect_accepted) simp

lemma urlparse_scheme_script:
  "urlparse_scheme example_env (lit ''javascript:alert(1)'') = Inr (lit ''javascript'')"
  by (simp add: urlparse_scheme_def urlsplit_scheme_def lit_def scheme_char_def ascii_alpha_def
      ascii_lower_def)

text \<open>
  A \<open>Referer\<close> with a scheme Django does not allow: the form fallback flashes its
  message and the constructor of the redirect raises \<open>DisallowedRedirect\<close>.
\<close>

lemma script_referer_disallowed:
  "fst (browse_citation_by_docid example_env example_settings script_form None None)
     = Raises (DisallowedRedirect (lit ''javascript''))"
proof -
  have e: "encodable (lit ''javascript:alert(1)'')"
    by (simp add: encodable_def lit_def is_surrogate_def)
  have n: "lit ''javascript'' \<noteq> []" "lit ''javascript'' \<notin> set allowed_schemes"
    by (simp_all add: allowed_schemes_def lit_def)
  have r: "new_HttpResponseRedirect example_env (lit ''javascript:alert(1)'')
      = Raises (DisallowedRedirect (lit ''javascript''))"
    using e urlparse_scheme_script n by (rule new_HttpResponseRedirect_disallowed)
  have h: "header_referer script_form = lit ''javascript:alert(1)''"
    by (simp add: header_referer_def script_form_def)
  have g: "GET script_form (lit ''doctype'') = Some (lit ''rfc'')"
      "GET script_form (lit ''docid'') = Some (lit ''zz'')"
    by (simp_all add: script_form_def lit_def)
  have s: "search_by_docid example_env (lit ''rfc'') (lit ''zz'') = []"
    by (simp add: search_by_docid_def example_env_def lit_def)
  have t: "lit ''rfc'' \<noteq> []" "lit ''zz'' \<noteq> []" by (simp_all add: lit_def)
  show ?thesis
    by (simp add: browse_citation_by_docid_def docid_form_fallback_def Let_def g s t h r)
qed

section \<open>The claims\<close>

subsection \<open>C1: browsing by document ID, with the ID in the URL path\<close>

text \<open>
  C1. With a non-empty doctype and docid in the URL path, \<open>browse_citation_by_docid\<close>
  searches for the URL-decoded docid. If the search returns exactly one citation, the
  view renders the citation-details template with that citation's dataset, ref and
  body in the context; if it returns none or several, the view returns a not-found
  response and no details page.
\<close>

theorem docid_path_unique_match:
  assumes "doctype \<noteq> []" and "docid \<noteq> []"
  shows "(\<forall>c. search_by_docid env doctype (unquote_plus docid) = [c] \<longrightarrow>
            (\<exists>ctx. browse_citation_by_docid env st request (Some doctype) (Some docid)
                     = (Returns (Render ''browse/citation_details.html'' ctx), [])
                \<and> ctx ''dataset_id'' = Some (VStr (dataset c))
                \<and> ctx ''ref'' = Some (VStr (ref c))
                \<and> ctx ''data'' = Some (VDoc (body c))))
       \<and> (length (search_by_docid env doctype (unquote_plus docid)) \<noteq> 1 \<longrightarrow>
            (\<exists>msg. browse_citation_by_docid env st request (Some doctype) (Some docid)
                     = (Returns (HttpResponseNotFound msg), [])))"
  using assms
  by (auto simp: browse_citation_by_docid_def docid_path_branch_def Let_def citation_details_def)

theorem docid_path_unique_match_witness:
  "(\<exists>ctx. browse_citation_by_docid example_env example_settings example_request
             (Some (lit ''rfc'')) (Some (lit ''a+b''))
            = (Returns (Render ''browse/citation_details.html'' ctx), [])
         \<and> ctx ''dataset_id'' = Some (VStr (dataset example_citation))
         \<and> ctx ''ref'' = Some (VStr (ref example_citation))
         \<and> ctx ''data'' = Some (VDoc (body example_citation)))
   \<and> (\<exists>msg. browse_citation_by_docid example_env example_settings example_request
             (Some (lit ''rfc'')) (Some (lit ''zz''))
            = (Returns (HttpResponseNotFound msg), []))"
proof -
  have a: "lit ''rfc'' \<noteq> []" "lit ''a+b'' \<noteq> []" "lit ''zz'' \<noteq> []"
    by (simp_all add: lit_def)
  have u: "unquote_plus (lit ''a+b'') = lit ''a b''" "unquote_plus (lit ''zz'') = lit ''zz''"
    by (simp_all add: unquote_plus_def unquote_def replace_char_def lit_def)
  have s: "search_by_docid example_env (lit ''rfc'') (unquote_plus (lit ''a+b''))
             = [example_citation]"
    by (simp add: u search_by_docid_def example_env_def)
  have z: "length (search_by_docid example_env (lit ''rfc'') (unquote_plus (lit ''zz''))) \<noteq> 1"
    unfolding u by (simp add: search_by_docid_def example_env_def lit_def)
  from docid_path_unique_match[OF a(1) a(2), of example_env example_settings example_request]
    docid_path_unique_match[OF a(1) a(3), of example_env example_settings example_request]
    s z show ?thesis by blast
qed

subsection \<open>C2: not-found and ambiguous outcomes\<close>

text \<open>
  C2 as stated (every not-found or ambiguous outcome gives an HTTP 404) fails on the
  form fallback of \<open>browse_citation_by_docid\<close>: with no match for the submitted
  document ID the view flashes a message and redirects to the referring page.
\<close>

theorem form_no_match_redirects:
  "search_by_docid example_env (lit ''rfc'') (lit ''zz'') = []
   \<and> fst (browse_citation_by_docid example_env example_settings example_form None None)
       = Returns (HttpResponseRedirect (lit ''/search''))"
proof -
  have r: "new_HttpResponseRedirect example_env (lit ''/search'')
      = Returns (HttpResponseRedirect (lit ''/search''))"
    using encodable_search urlparse_scheme_search
    by (rule new_HttpResponseRedirect_accepted) simp
  have h: "header_referer example_form = lit ''/search''"
    by (simp add: header_referer_def example_form_def)
  have g: "GET example_form (lit ''doctype'') = Some (lit ''rfc'')"
      "GET example_form (lit ''docid'') = Some (lit ''zz'')"
    by (simp_all add: example_form_def lit_def)
  have s: "search_by_docid example_env (lit ''rfc'') (lit ''zz'') = []"
    by (simp add: search_by_docid_def example_env_def lit_def)
  have t: "lit ''rfc'' \<noteq> []" "lit ''zz'' \<noteq> []" by (simp_all add: lit_def)
  show ?thesis
    by (simp add: browse_citation_by_docid_def docid_form_fallback_def Let_def g s t h r)
qed

text \<open>
  C2, amended. With the document ID in the URL path, no match and several matches each
  give \<open>HttpResponseNotFound\<close> (404) with a message naming the doctype and the
  docid. In \<open>browse_indexed_reference\<close> on a dataset other than \<open>doi\<close>, a
  \<open>RefNotFoundError\<close> from \<open>get_indexed_ref\<close> raises \<open>Http404\<close> with a message
  naming the reference and the dataset. In the form fallback, any number of matches
  other than one gives a flashed error message with the number of matches, and the
  view answers with \<open>HttpResponseRedirect\<close> on the referring page: a redirect to it
  when Django accepts the URL (it can be encoded and parsed and has no scheme or one
  of \<open>http\<close>, \<open>https\<close>, \<open>ftp\<close>), the exception of the constructor otherwise.
\<close>

theorem not_found_responses:
  "(doctype \<noteq> [] \<and> docid \<noteq> [] \<longrightarrow>
      (search_by_docid env doctype (unquote_plus docid) = [] \<longrightarrow>
         browse_citation_by_docid env st request (Some doctype) (Some docid)
           = (Returns (HttpResponseNotFound
                (lit ''Citation with docid.type '' @ doctype @ lit '' and docid.id '' @ docid
                   @ lit '' was not found in indexed sources'')), []))
      \<and> (1 < length (search_by_docid env doctype (unquote_plus docid)) \<longrightarrow>
         browse_citation_by_docid env st request (Some doctype) (Some docid)
           = (Returns (HttpResponseNotFound
                (lit ''Multiple citations with docid.type '' @ doctype @ lit '' and docid.id ''
                   @ docid @ lit '' were found in indexed sources'')), [])))
   \<and> (dataset_id \<noteq> lit ''doi'' \<and> get_indexed_ref env dataset_id (unquote_plus r) = Inl exc
        \<and> is_RefNotFoundError exc \<longrightarrow>
         browse_indexed_reference env st request dataset_id r
           = (Raises (Http404
                (lit ''Requested reference '' @ [8220] @ unquote_plus r @ [8221]
                   @ lit '' could not be found in dataset '' @ [8220] @ dataset_id @ [8221]
                   @ lit '' (or external source is unavailable)'')), []))
   \<and> (\<not> (truthy url_doctype \<and> truthy url_docid)
        \<and> GET request (lit ''doctype'') = Some doctype \<and> doctype \<noteq> []
        \<and> GET request (lit ''docid'') = Some docid \<and> docid \<noteq> []
        \<and> length (search_by_docid env doctype docid) \<noteq> 1 \<longrightarrow>
         browse_citation_by_docid env st request url_doctype url_docid
           = (new_HttpResponseRedirect env (header_referer request),
              [lit ''No reliable match for a citation matching doctype '' @ [8220]
                 @ doctype @ [8221] @ lit '' and ID '' @ [8220] @ docid @ [8221]
                 @ lit '' among indexed datasets (''
                 @ str_of_nat (length (search_by_docid env doctype docid))
                 @ lit '' matches).''])
         \<and> (encodable (header_referer request)
              \<and> urlparse_scheme env (header_referer request) = Inr scheme
              \<and> (scheme = [] \<or> scheme \<in> set allowed_schemes) \<longrightarrow>
            fst (browse_citation_by_docid env st request url_doctype url_docid)
              = Returns (HttpResponseRedirect (header_referer request))))"
proof -
  have accepted: "encodable u \<and> urlparse_scheme env u = Inr scheme
      \<and> (scheme = [] \<or> scheme \<in> set allowed_schemes)
      \<Longrightarrow> new_HttpResponseRedirect env u = Returns (HttpResponseRedirect u)" for u
    using new_HttpResponseRedirect_accepted by blast
  show ?thesis
    by (auto simp: browse_citation_by_docid_def docid_path_branch_def docid_form_fallback_def
        browse_indexed_reference_def indexed_try_body_def Let_def accepted)
qed

theorem not_found_responses_witness:
  "browse_citation_by_docid example_env example_settings example_request
       (Some (lit ''rfc'')) (Some (lit ''zz''))
     = (Returns (HttpResponseNotFound
          (lit ''Citation with docid.type '' @ lit ''rfc'' @ lit '' and docid.id '' @ lit ''zz''
             @ lit '' was not found in indexed sources'')), [])
   \<and> browse_citation_by_docid example_env example_settings example_request
       (Some (lit ''rfc'')) (Some (lit ''dup''))
     = (Returns (HttpResponseNotFound
          (lit ''Multiple citations with docid.type '' @ lit ''rfc'' @ lit '' and docid.id ''
             @ lit ''dup'' @ lit '' were found in indexed sources'')), [])
   \<and> browse_indexed_reference example_env example_settings example_request
       (lit ''rfcs'') (lit ''nope'')
     = (Raises (Http404
          (lit ''Requested reference '' @ [8220] @ unquote_plus (lit ''nope'') @ [8221]
             @ lit '' could not be found in dataset '' @ [8220] @ lit ''rfcs'' @ [8221]
             @ lit '' (or external source is unavailable)'')), [])
   \<and> snd (browse_citation_by_docid example_env example_settings example_form None None)
     = [lit ''No reliable match for a citation matching doctype '' @ [8220]
          @ lit ''rfc'' @ [8221] @ lit '' and ID '' @ [8220] @ lit ''zz'' @ [8221]
          @ lit '' among indexed datasets ('' @ str_of_nat 0 @ lit '' matches).'']
   \<and> fst (browse_citation_by_docid example_env example_settings example_form None None)
     = Returns (HttpResponseRedirect (lit ''/search''))"
proof -
  have n: "lit ''rfc'' \<noteq> []" "lit ''zz'' \<noteq> []" "lit ''dup'' \<noteq> []" "lit ''rfcs'' \<noteq> lit ''doi''"
    by (simp_all add: lit_def)
  have u: "unquote_plus (lit ''zz'') = lit ''zz''" "unquote_plus (lit ''dup'') = lit ''dup''"
      "unquote_plus (lit ''nope'') = lit ''nope''"
    by (simp_all add: unquote_plus_def unquote_def replace_char_def lit_def)
  have s: "search_by_docid example_env (lit ''rfc'') (lit ''zz'') = []"
      "length (search_by_docid example_env (lit ''rfc'') (lit ''dup'')) = 2"
    by (simp_all add: search_by_docid_def example_env_def lit_def)
  have g: "get_indexed_ref example_env (lit ''rfcs'') (lit ''nope'') = Inl example_error"
      "is_RefNotFoundError example_error"
    by (simp_all add: example_env_def example_error_def lit_def)
  have f: "GET example_form (lit ''doctype'') = Some (lit ''rfc'')"
      "GET example_form (lit ''docid'') = Some (lit ''zz'')"
      "header_referer example_form = lit ''/search''"
    by (simp_all add: example_form_def header_referer_def lit_def)
  have 1: "browse_citation_by_docid example_env example_settings example_request
       (Some (lit ''rfc'')) (Some (lit ''zz''))
     = (Returns (HttpResponseNotFound
          (lit ''Citation with docid.type '' @ lit ''rfc'' @ lit '' and docid.id '' @ lit ''zz''
             @ lit '' was not found in indexed sources'')), [])"
    using not_found_responses[where doctype = "lit ''rfc''" and docid = "lit ''zz''"
        and env = example_env and st = example_settings and request = example_request]
      n u s by simp
  have 2: "browse_citation_by_docid example_env example_settings example_request
       (Some (lit ''rfc'')) (Some (lit ''dup''))
     = (Returns (HttpResponseNotFound
          (lit ''Multiple citations with docid.type '' @ lit ''rfc'' @ lit '' and docid.id ''
             @ lit ''dup'' @ lit '' were found in indexed sources'')), [])"
    using not_found_responses[where doctype = "lit ''rfc''" and docid = "lit ''dup''"
        and env = example_env and st = example_settings and request = example_request]
      n u s by simp
  have 3: "browse_indexed_reference example_env example_settings example_request
       (lit ''rfcs'') (lit ''nope'')
     = (Raises (Http404
          (lit ''Requested reference '' @ [8220] @ unquote_plus (lit ''nope'') @ [8221]
             @ lit '' could not be found in dataset '' @ [8220] @ lit ''rfcs'' @ [8221]
             @ lit '' (or external source is unavailable)'')), [])"
    using not_found_responses[where dataset_id = "lit ''rfcs''" and r = "lit ''nope''"
        and exc = example_error
        and env = example_env and st = example_settings and request = example_request]
      n u g by simp
  have 4: "snd (browse_citation_by_docid example_env example_settings example_form None None)
     = [lit ''No reliable match for a citation matching doctype '' @ [8220]
          @ lit ''rfc'' @ [8221] @ lit '' and ID '' @ [8220] @ lit ''zz'' @ [8221]
          @ lit '' among indexed datasets ('' @ str_of_nat 0 @ lit '' matches).'']"
    and 5: "fst (browse_citation_by_docid example_env example_settings example_form None None)
     = Returns (HttpResponseRedirect (lit ''/search''))"
    using not_found_responses[where doctype = "lit ''rfc''" and docid = "lit ''zz''"
        and url_doctype = None and url_docid = None and scheme = "[]"
        and env = example_env and st = example_settings and request = example_form]
      n s f encodable_search urlparse_scheme_search new_HttpResponseRedirect_search
    by simp_all
  from 1 2 3 4 5 show ?thesis by simp
qed

subsection \<open>C3: failures of the DOI resolver\<close>

text \<open>
  C3 as stated (every exception of \<open>get_doi_ref\<close> gives the server-error page) fails
  on the form fallback of \<open>browse_external_reference\<close>: a \<open>RuntimeError\<close> of the
  resolver is flashed as a message and the view redirects to the referring page.
\<close>

theorem form_resolver_failure_redirects:
  "get_doi_ref example_env (lit ''10.9/y'') = Inl example_error
   \<and> is_RuntimeError example_error
   \<and> fst (browse_external_reference example_env example_settings example_form (lit ''doi'') None)
       = Returns (HttpResponseRedirect (lit ''/search''))"
proof -
  have r: "new_HttpResponseRedirect example_env (lit ''/search'')
      = Returns (HttpResponseRedirect (lit ''/search''))"
    using encodable_search urlparse_scheme_search
    by (rule new_HttpResponseRedirect_accepted) simp
  have h: "header_referer example_form = lit ''/search''"
    by (simp add: header_referer_def example_form_def)
  have g: "GET example_form (lit ''ref'') = Some (lit ''10.9/y'')"
    by (simp add: example_form_def lit_def)
  have d: "get_doi_ref example_env (lit ''10.9/y'') = Inl example_error"
      "is_RuntimeError example_error"
    by (simp_all add: example_env_def example_error_def lit_def)
  have t: "lit ''10.9/y'' \<noteq> []" by (simp add: lit_def)
  show ?thesis
    by (simp add: browse_external_reference_def external_form_fallback_def Let_def g d t h r)
qed

text \<open>
  C3, amended. When the reference is in the URL path, every exception of
  \<open>get_doi_ref\<close> gives the generic server-error page, in
  \<open>browse_external_reference\<close> and in \<open>browse_indexed_reference\<close> on the dataset
  \<open>doi\<close>. In the form fallback of \<open>browse_external_reference\<close>, a
  \<open>RuntimeError\<close> of \<open>get_doi_ref\<close> gives a flashed message with the text of the
  exception, and the view answers with \<open>HttpResponseRedirect\<close> on the referring
  page: a redirect to it when Django accepts the URL (it can be encoded and parsed and
  has no scheme or one of \<open>http\<close>, \<open>https\<close>, \<open>ftp\<close>), the exception of the
  constructor otherwise.
\<close>

theorem doi_resolver_failure:
  "(r \<noteq> [] \<and> get_doi_ref env (unquote_plus r) = Inl exc \<longrightarrow>
      browse_external_reference env st request (lit ''doi'') (Some r)
        = (Returns (server_error request), []))
   \<and> (get_doi_ref env (unquote_plus r) = Inl exc \<longrightarrow>
      browse_indexed_reference env st request (lit ''doi'') r
        = (Returns (server_error request), []))
   \<and> (\<not> truthy url_ref \<and> GET request (lit ''ref'') = Some r \<and> r \<noteq> []
        \<and> get_doi_ref env r = Inl exc \<and> is_RuntimeError exc \<longrightarrow>
      browse_external_reference env st request (lit ''doi'') url_ref
        = (new_HttpResponseRedirect env (header_referer request),
           (if lit ''doi'' \<notin> set (EXTERNAL_DATASETS st)
            then [lit ''Unknown external dataset '' @ lit ''doi''] else [])
           @ [lit ''Couldn'' @ [8217] @ lit ''t retrieve citation: '' @ exc_str exc])
      \<and> (encodable (header_referer request)
           \<and> urlparse_scheme env (header_referer request) = Inr scheme
           \<and> (scheme = [] \<or> scheme \<in> set allowed_schemes) \<longrightarrow>
         fst (browse_external_reference env st request (lit ''doi'') url_ref)
           = Returns (HttpResponseRedirect (header_referer request))))"
proof -
  have accepted: "encodable u \<and> urlparse_scheme env u = Inr scheme
      \<and> (scheme = [] \<or> scheme \<in> set allowed_schemes)
      \<Longrightarrow> new_HttpResponseRedirect env u = Returns (HttpResponseRedirect u)" for u
    using new_HttpResponseRedirect_accepted by blast
  show ?thesis
    by (auto simp: browse_external_reference_def external_path_branch_def
        external_form_fallback_def browse_indexed_reference_def indexed_try_body_def Let_def
        accepted)
qed

theorem doi_resolver_failure_witness:
  "browse_external_reference example_env example_settings example_request
       (lit ''doi'') (Some (lit ''bad''))
     = (Returns (server_error example_request), [])
   \<and> browse_indexed_reference example_env example_settings example_request
       (lit ''doi'') (lit ''bad'')
     = (Returns (server_error example_request), [])
   \<and> snd (browse_external_reference example_env example_settings example_form (lit ''doi'') None)
     = [lit ''Couldn'' @ [8217] @ lit ''t retrieve citation: '' @ lit ''gone'']
   \<and> fst (browse_external_reference example_env example_settings example_form (lit ''doi'') None)
     = Returns (HttpResponseRedirect (lit ''/search''))"
proof -
  have u: "unquote_plus (lit ''bad'') = lit ''bad''" "lit ''bad'' \<noteq> []" "lit ''10.9/y'' \<noteq> []"
    by (simp_all add: unquote_plus_def unquote_def replace_char_def lit_def)
  have g: "get_doi_ref example_env (lit ''bad'') = Inl example_error"
      "get_doi_ref example_env (lit ''10.9/y'') = Inl example_error"
      "is_RuntimeError example_error" "exc_str example_error = lit ''gone''"
    by (simp_all add: example_env_def example_error_def lit_def)
  have f: "GET example_form (lit ''ref'') = Some (lit ''10.9/y'')"
      "header_referer example_form = lit ''/search''"
      "lit ''doi'' \<in> set (EXTERNAL_DATASETS example_settings)"
    by (simp_all add: example_form_def header_referer_def example_settings_def lit_def)
  have 1: "browse_external_reference example_env example_settings example_request
       (lit ''doi'') (Some (lit ''bad'')) = (Returns (server_error example_request), [])"
    and 2: "browse_indexed_reference example_env example_settings example_request
       (lit ''doi'') (lit ''bad'') = (Returns (server_error example_request), [])"
    using doi_resolver_failure[where r = "lit ''bad''" and exc = example_error
        and env = example_env and st = example_settings and request = example_request]
      u g by simp_all
  have 3: "snd (browse_external_reference example_env example_settings example_form
                  (lit ''doi'') None)
     = [lit ''Couldn'' @ [8217] @ lit ''t retrieve citation: '' @ lit ''gone'']"
    and 4: "fst (browse_external_reference example_env example_settings example_form
                  (lit ''doi'') None)
     = Returns (HttpResponseRedirect (lit ''/search''))"
    using doi_resolver_failure[where r = "lit ''10.9/y''" and exc = example_error
        and url_ref = None and scheme = "[]"
        and env = example_env and st = example_settings and request = example_form]
      u g f encodable_search urlparse_scheme_search new_HttpResponseRedirect_search
    by simp_all
  from 1 2 3 4 show ?thesis by simp
qed

subsection \<open>C4: unsupported external datasets\<close>

text \<open>
  C4 as stated (every request naming an unsupported external dataset gives a flashed
  message and a redirect) fails when the reference is in the URL path: the view then
  answers a dataset other than \<open>doi\<close> with a bad-request response and flashes nothing.
\<close>

theorem path_unsupported_dataset_bad_request:
  "lit ''misc'' \<notin> set (EXTERNAL_DATASETS example_settings)
   \<and> browse_external_reference example_env example_settings example_request
        (lit ''misc'') (Some (lit ''x''))
       = (Returns (HttpResponseBadRequest (lit ''Unsupported external dataset ID'')), [])"
  by (simp add: browse_external_reference_def external_path_branch_def Let_def
      example_settings_def lit_def)

text \<open>
  C4, amended. In the form fallback of \<open>browse_external_reference\<close> (no reference in
  the URL path, a non-empty \<open>ref\<close> GET parameter), a dataset other than \<open>doi\<close> gives
  the flashed message "Unsupported external dataset ..." (after "Unknown external
  dataset ..." when the dataset is not in \<open>EXTERNAL_DATASETS\<close>), and the view answers
  with \<open>HttpResponseRedirect\<close> on the referring page, or on \<open>/\<close> without a referer
  header: a redirect to \<open>/\<close> in the second case, and in the first a redirect to the
  referring page when Django accepts the URL (it can be encoded and parsed and has no
  scheme or one of \<open>http\<close>, \<open>https\<close>, \<open>ftp\<close>), the exception of the constructor
  otherwise. With the reference in the URL path, a dataset other than \<open>doi\<close> gives a
  bad-request response.
\<close>

theorem unsupported_external_dataset:
  "(\<not> truthy url_ref \<and> truthy (GET request (lit ''ref'')) \<and> dataset_id \<noteq> lit ''doi'' \<longrightarrow>
      browse_external_reference env st request dataset_id url_ref
        = (new_HttpResponseRedirect env
             (case referer request of None \<Rightarrow> lit ''/'' | Some origin \<Rightarrow> origin),
           (if dataset_id \<notin> set (EXTERNAL_DATASETS st)
            then [lit ''Unknown external dataset '' @ dataset_id] else [])
           @ [lit ''Unsupported external dataset '' @ dataset_id])
      \<and> (referer request = None \<longrightarrow>
           fst (browse_external_reference env st request dataset_id url_ref)
             = Returns (HttpResponseRedirect (lit ''/'')))
      \<and> (referer request = Some origin \<and> encodable origin
           \<and> urlparse_scheme env origin = Inr scheme
           \<and> (scheme = [] \<or> scheme \<in> set allowed_schemes) \<longrightarrow>
           fst (browse_external_reference env st request dataset_id url_ref)
             = Returns (HttpResponseRedirect origin)))
   \<and> (r \<noteq> [] \<and> dataset_id \<noteq> lit ''doi'' \<longrightarrow>
      browse_external_reference env st request dataset_id (Some r)
        = (Returns (HttpResponseBadRequest (lit ''Unsupported external dataset ID'')), []))"
proof -
  have accepted: "encodable u \<and> urlparse_scheme env u = Inr scheme
      \<and> (scheme = [] \<or> scheme \<in> set allowed_schemes)
      \<Longrightarrow> new_HttpResponseRedirect env u = Returns (HttpResponseRedirect u)" for u
    using new_HttpResponseRedirect_accepted by blast
  show ?thesis
    by (auto simp: browse_external_reference_def external_path_branch_def
        external_form_fallback_def Let_def header_referer_def accepted
        new_HttpResponseRedirect_root)
qed

theorem unsupported_external_dataset_witness:
  "snd (browse_external_reference example_env example_settings example_form (lit ''misc'') None)
     = [lit ''Unknown external dataset '' @ lit ''misc'',
        lit ''Unsupported external dataset '' @ lit ''misc'']
   \<and> fst (browse_external_reference example_env example_settings example_form (lit ''misc'') None)
     = Returns (HttpResponseRedirect (lit ''/search''))
   \<and> fst (browse_external_reference example_env example_settings spaced_form (lit ''misc'') None)
     = Returns (HttpResponseRedirect (lit ''/''))
   \<and> browse_external_reference example_env example_settings example_request
        (lit ''misc'') (Some (lit ''x''))
     = (Returns (HttpResponseBadRequest (lit ''Unsupported external dataset ID'')), [])"
proof -
  have n: "lit ''misc'' \<noteq> lit ''doi''" "lit ''x'' \<noteq> []"
      "lit ''misc'' \<notin> set (EXTERNAL_DATASETS example_settings)"
    by (simp_all add: lit_def example_settings_def)
  have f: "truthy (GET example_form (lit ''ref''))" "referer example_form = Some (lit ''/search'')"
    by (simp_all add: example_form_def lit_def)
  have p: "truthy (GET spaced_form (lit ''ref''))" "referer spaced_form = None"
    by (simp_all add: spaced_form_def lit_def)
  have 1: "snd (browse_external_reference example_env example_settings example_form
                  (lit ''misc'') None)
     = [lit ''Unknown external dataset '' @ lit ''misc'',
        lit ''Unsupported external dataset '' @ lit ''misc'']"
    and 2: "fst (browse_external_reference example_env example_settings example_form
                  (lit ''misc'') None)
     = Returns (HttpResponseRedirect (lit ''/search''))"
    using unsupported_external_dataset[where url_ref = None and request = example_form
        and dataset_id = "lit ''misc''" and env = example_env and st = example_settings
        and origin = "lit ''/search''" and scheme = "[]"]
      n f encodable_search urlparse_scheme_search new_HttpResponseRedirect_search
    by simp_all
  have 3: "fst (browse_external_reference example_env example_settings spaced_form
                  (lit ''misc'') None)
     = Returns (HttpResponseRedirect (lit ''/''))"
    using unsupported_external_dataset[where url_ref = None and request = spaced_form
        and dataset_id = "lit ''misc''" and env = example_env and st = example_settings]
      n p new_HttpResponseRedirect_root by simp
  have 4: "browse_external_reference example_env example_settings example_request
        (lit ''misc'') (Some (lit ''x''))
     = (Returns (HttpResponseBadRequest (lit ''Unsupported external dataset ID'')), [])"
    using unsupported_external_dataset[where r = "lit ''x''" and request = example_request
        and dataset_id = "lit ''misc''" and env = example_env and st = example_settings]
      n by simp
  from 1 2 3 4 show ?thesis by simp
qed

subsection \<open>C5: missing form parameters\<close>

text \<open>
  C5. In the form fallback of \<open>browse_citation_by_docid\<close>, a missing or empty
  \<open>doctype\<close> or \<open>docid\<close> GET parameter gives a bad-request response (HTTP 400); in
  the form fallback of \<open>browse_external_reference\<close>, a missing or empty \<open>ref\<close> GET
  parameter does.
\<close>

theorem missing_parameters_bad_request:
  "(\<not> (truthy doctype \<and> truthy docid)
      \<and> (\<not> truthy (GET request (lit ''doctype'')) \<or> \<not> truthy (GET request (lit ''docid'')))
      \<longrightarrow> browse_citation_by_docid env st request doctype docid
            = (Returns (HttpResponseBadRequest (lit ''Missing document type and/or ID'')), []))
   \<and> (\<not> truthy r \<and> \<not> truthy (GET request (lit ''ref''))
      \<longrightarrow> browse_external_reference env st request dataset_id r
            = (Returns (HttpResponseBadRequest (lit ''Missing dataset ID and/or reference'')), []))"
  by (simp add: browse_citation_by_docid_def docid_form_fallback_def
      browse_external_reference_def external_form_fallback_def Let_def)

theorem missing_parameters_bad_request_witness:
  "browse_citation_by_docid example_env example_settings example_request None (Some (lit ''x''))
     = (Returns (HttpResponseBadRequest (lit ''Missing document type and/or ID'')), [])
   \<and> browse_external_reference example_env example_settings example_request (lit ''doi'') None
     = (Returns (HttpResponseBadRequest (lit ''Missing dataset ID and/or reference'')), [])"
  using missing_parameters_bad_request[where doctype = None and docid = "Some (lit ''x'')"
      and request = example_request and env = example_env and st = example_settings
      and r = None and dataset_id = "lit ''doi''"]
  by (simp add: example_request_def)

subsection \<open>C6: browsing an indexed reference\<close>

text \<open>
  C6. For a dataset other than \<open>doi\<close>, \<open>browse_indexed_reference\<close> renders the
  citation-details template with the document \<open>get_indexed_ref\<close> returns for the
  dataset and the URL-decoded reference, and raises \<open>Http404\<close> when
  \<open>get_indexed_ref\<close> raises \<open>RefNotFoundError\<close>.
\<close>

theorem indexed_reference_lookup:
  assumes "dataset_id \<noteq> lit ''doi''"
  shows "(\<forall>data. get_indexed_ref env dataset_id (unquote_plus r) = Inr data \<longrightarrow>
            (\<exists>ctx. browse_indexed_reference env st request dataset_id r
                     = (Returns (Render ''browse/citation_details.html'' ctx), [])
                \<and> ctx ''dataset_id'' = Some (VStr dataset_id)
                \<and> ctx ''ref'' = Some (VStr r)
                \<and> ctx ''data'' = Some (VDoc data)))
       \<and> (\<forall>exc. get_indexed_ref env dataset_id (unquote_plus r) = Inl exc
                  \<and> is_RefNotFoundError exc \<longrightarrow>
            (\<exists>msg. browse_indexed_reference env st request dataset_id r
                     = (Raises (Http404 msg), [])))"
  using assms
  by (auto simp: browse_indexed_reference_def indexed_try_body_def citation_details_def)

theorem indexed_reference_lookup_witness:
  "(\<exists>ctx. browse_indexed_reference example_env example_settings example_request
             (lit ''rfcs'') (lit ''rfc1'')
            = (Returns (Render ''browse/citation_details.html'' ctx), [])
         \<and> ctx ''dataset_id'' = Some (VStr (lit ''rfcs''))
         \<and> ctx ''ref'' = Some (VStr (lit ''rfc1''))
         \<and> ctx ''data'' = Some (VDoc 7))
   \<and> (\<exists>msg. browse_indexed_reference example_env example_settings example_request
             (lit ''rfcs'') (lit ''nope'')
            = (Raises (Http404 msg), []))"
proof -
  have n: "lit ''rfcs'' \<noteq> lit ''doi''" by (simp add: lit_def)
  have u: "unquote_plus (lit ''rfc1'') = lit ''rfc1''" "unquote_plus (lit ''nope'') = lit ''nope''"
    by (simp_all add: unquote_plus_def unquote_def replace_char_def lit_def)
  have g: "get_indexed_ref example_env (lit ''rfcs'') (unquote_plus (lit ''rfc1'')) = Inr 7"
      "get_indexed_ref example_env (lit ''rfcs'') (unquote_plus (lit ''nope'')) = Inl example_error
         \<and> is_RefNotFoundError example_error"
    unfolding u by (simp_all add: example_env_def example_error_def lit_def)
  from indexed_reference_lookup[OF n, of example_env "lit ''rfc1''" example_settings example_request]
    indexed_reference_lookup[OF n, of example_env "lit ''nope''" example_settings example_request]
    g show ?thesis by blast
qed

subsection \<open>C7: the indexed-dataset list view\<close>

text \<open>
  C7. The list view takes its objects from \<open>list_refs\<close> on the \<open>dataset_id\<close> URL
  parameter and paginates them by 20: whenever it renders, the context carries that
  \<open>dataset_id\<close> and, as object list, one page of \<open>list_refs(dataset_id)\<close> of at
  most 20 citations; every page from 1 to the number of pages renders; and the pages
  in order make up exactly \<open>list_refs(dataset_id)\<close>.
\<close>

theorem dataset_list_view_pages:
  assumes "kwargs ''dataset_id'' = Some dataset_id"
  shows "get_queryset env kwargs = Inr (list_refs env dataset_id)
       \<and> paginate_by = 20
       \<and> (\<forall>ctx t flashed.
            IndexedDatasetCitationListView env st kwargs page = (Returns (Render t ctx), flashed)
            \<longrightarrow> ctx ''dataset_id'' = Some (VStr dataset_id)
              \<and> (\<exists>n objs. 1 \<le> n \<and> n \<le> num_pages (length (list_refs env dataset_id)) 20
                    \<and> objs = page_object_list (list_refs env dataset_id) 20 n
                    \<and> ctx ''object_list'' = Some (VRefs objs) \<and> length objs \<le> 20))
       \<and> (\<forall>n. 1 \<le> n \<and> n \<le> num_pages (length (list_refs env dataset_id)) 20 \<longrightarrow>
            (\<exists>ctx. IndexedDatasetCitationListView env st kwargs (PageNumber (int n))
                     = (Returns (Render ''browse/dataset.html'' ctx), [])
                \<and> ctx ''object_list''
                     = Some (VRefs (take 20 (drop ((n - 1) * 20) (list_refs env dataset_id))))))
       \<and> concat (map (page_object_list (list_refs env dataset_id) 20)
                   [1..<Suc (num_pages (length (list_refs env dataset_id)) 20)])
           = list_refs env dataset_id"
proof -
  let ?xs = "list_refs env dataset_id"
  have q: "get_queryset env kwargs = Inr ?xs" using assms by (simp add: get_queryset_def)
  have a: "\<And>ctx t flashed.
       IndexedDatasetCitationListView env st kwargs page = (Returns (Render t ctx), flashed)
       \<Longrightarrow> ctx ''dataset_id'' = Some (VStr dataset_id)
          \<and> (\<exists>n objs. 1 \<le> n \<and> n \<le> num_pages (length ?xs) 20
                \<and> objs = page_object_list ?xs 20 n
                \<and> ctx ''object_list'' = Some (VRefs objs) \<and> length objs \<le> 20)"
  proof -
    fix ctx t flashed
    assume v: "IndexedDatasetCitationListView env st kwargs page = (Returns (Render t ctx), flashed)"
    then obtain objs ip where
        pq: "paginate_queryset ?xs 20 page = Inr (objs, ip)"
        and ctx: "ctx = [''is_paginated'' \<mapsto> VBool ip, ''object_list'' \<mapsto> VRefs objs,
                         ''refdata_list'' \<mapsto> VRefs objs]
                        ++ [''dataset_id'' \<mapsto> VStr dataset_id] ++ shared_context st"
      using assms q
      by (auto simp: IndexedDatasetCitationListView_def get_context_data_def
          list_view_context_def paginate_by_def split: sum.splits)
    from pq obtain m where m: "1 \<le> m" "m \<le> num_pages (length ?xs) 20"
        and objs: "objs = page_object_list ?xs 20 m"
      using paginate_queryset_Inr by blast
    note m
    moreover have "ctx ''dataset_id'' = Some (VStr dataset_id)"
      by (simp add: ctx map_add_def)
    moreover have "ctx ''object_list'' = Some (VRefs objs)"
      by (simp add: ctx map_add_def)
    moreover have "length objs \<le> 20" unfolding objs by (rule length_page_object_list)
    ultimately show "ctx ''dataset_id'' = Some (VStr dataset_id)
          \<and> (\<exists>n objs. 1 \<le> n \<and> n \<le> num_pages (length ?xs) 20
                \<and> objs = page_object_list ?xs 20 n
                \<and> ctx ''object_list'' = Some (VRefs objs) \<and> length objs \<le> 20)"
      using objs by blast
  qed
  have b: "\<And>n. 1 \<le> n \<and> n \<le> num_pages (length ?xs) 20 \<Longrightarrow>
       (\<exists>ctx. IndexedDatasetCitationListView env st kwargs (PageNumber (int n))
                = (Returns (Render ''browse/dataset.html'' ctx), [])
           \<and> ctx ''object_list'' = Some (VRefs (take 20 (drop ((n - 1) * 20) ?xs))))"
    using assms q
    by (simp add: IndexedDatasetCitationListView_def get_context_data_def
        list_view_context_def paginate_by_def paginate_queryset_def Let_def template_name_def
        page_object_list_slice map_add_def)
  have c: "concat (map (page_object_list ?xs 20) [1..<Suc (num_pages (length ?xs) 20)]) = ?xs"
    by (rule concat_pages) simp
  from q a b c show ?thesis by (simp add: paginate_by_def)
qed

theorem dataset_list_view_pages_witness:
  "example_kwargs ''dataset_id'' = Some (lit ''rfcs'')
   \<and> get_queryset example_env example_kwargs = Inr (replicate 45 example_citation)
   \<and> (\<exists>ctx. IndexedDatasetCitationListView example_env example_settings example_kwargs
              (PageNumber 3)
             = (Returns (Render ''browse/dataset.html'' ctx), [])
          \<and> ctx ''object_list'' = Some (VRefs (replicate 5 example_citation)))"
proof -
  have k: "example_kwargs ''dataset_id'' = Some (lit ''rfcs'')"
    by (simp add: example_kwargs_def)
  have l: "list_refs example_env (lit ''rfcs'') = replicate 45 example_citation"
    by (simp add: example_env_def)
  have p: "1 \<le> (3::nat) \<and> 3 \<le> num_pages (length (list_refs example_env (lit ''rfcs''))) 20"
    by (simp add: l num_pages_def)
  note t = dataset_list_view_pages[where kwargs = example_kwargs
      and dataset_id = "lit ''rfcs''" and env = example_env and st = example_settings
      and page = "PageNumber 3", OF k]
  from t have q: "get_queryset example_env example_kwargs
      = Inr (list_refs example_env (lit ''rfcs''))"
    by (rule conjunct1)
  from t have "\<forall>n. 1 \<le> n \<and> n \<le> num_pages (length (list_refs example_env (lit ''rfcs''))) 20 \<longrightarrow>
            (\<exists>ctx. IndexedDatasetCitationListView example_env example_settings example_kwargs
                      (PageNumber (int n))
                     = (Returns (Render ''browse/dataset.html'' ctx), [])
                \<and> ctx ''object_list''
                     = Some (VRefs (take 20 (drop ((n - 1) * 20)
                                      (list_refs example_env (lit ''rfcs''))))))"
    by blast
  with p have "\<exists>ctx. IndexedDatasetCitationListView example_env example_settings example_kwargs
                      (PageNumber (int 3))
                     = (Returns (Render ''browse/dataset.html'' ctx), [])
                \<and> ctx ''object_list''
                     = Some (VRefs (take 20 (drop ((3 - 1) * 20)
                                      (list_refs example_env (lit ''rfcs'')))))"
    by blast
  then have "\<exists>ctx. IndexedDatasetCitationListView example_env example_settings example_kwargs
                      (PageNumber 3)
                     = (Returns (Render ''browse/dataset.html'' ctx), [])
                \<and> ctx ''object_list'' = Some (VRefs (replicate 5 example_citation))"
    by (simp add: l)
  with k q l show ?thesis by simp
qed

subsection \<open>C8: no 404 for a DOI reference\<close>

text \<open>
  C8. In \<open>browse_indexed_reference\<close> on the dataset \<open>doi\<close> no exception reaches the
  \<open>RefNotFoundError\<close> handler: the view never raises \<open>Http404\<close>, and every
  exception of \<open>get_doi_ref\<close>, \<open>RefNotFoundError\<close> included, gives the
  server-error page.
\<close>

theorem doi_never_http404:
  "(\<forall>msg flashed. browse_indexed_reference env st request (lit ''doi'') r
        \<noteq> (Raises (Http404 msg), flashed))
   \<and> (\<forall>exc. indexed_try_body env request (lit ''doi'') (unquote_plus r) \<noteq> Raised exc)
   \<and> (\<forall>exc. get_doi_ref env (unquote_plus r) = Inl exc \<longrightarrow>
         browse_indexed_reference env st request (lit ''doi'') r = (Returns (server_error request), []))"
proof -
  have body: "indexed_try_body env request (lit ''doi'') p \<noteq> Raised exc" for p exc
    by (simp add: indexed_try_body_def split: sum.splits)
  have never: "browse_indexed_reference env st request (lit ''doi'') r
      \<noteq> (Raises (Http404 msg), flashed)" for msg flashed
  proof (cases "indexed_try_body env request (lit ''doi'') (unquote_plus r)")
    case (Raised exc)
    with body show ?thesis by simp
  next
    case (Returned response)
    then show ?thesis by (simp add: browse_indexed_reference_def)
  next
    case (Bound data)
    then show ?thesis by (simp add: browse_indexed_reference_def)
  qed
  have caught: "browse_indexed_reference env st request (lit ''doi'') r
      = (Returns (server_error request), [])"
    if "get_doi_ref env (unquote_plus r) = Inl exc" for exc
    using that by (simp add: browse_indexed_reference_def indexed_try_body_def)
  from body never caught show ?thesis by blast
qed

theorem doi_never_http404_witness:
  "get_doi_ref example_env (unquote_plus (lit ''bad'')) = Inl example_error
   \<and> is_RefNotFoundError example_error
   \<and> browse_indexed_reference example_env example_settings example_request
        (lit ''doi'') (lit ''bad'')
       = (Returns (server_error example_request), [])"
proof -
  have u: "unquote_plus (lit ''bad'') = lit ''bad''"
    by (simp add: unquote_plus_def unquote_def replace_char_def lit_def)
  have g: "get_doi_ref example_env (unquote_plus (lit ''bad'')) = Inl example_error"
      "is_RefNotFoundError example_error"
    unfolding u by (simp_all add: example_env_def example_error_def lit_def)
  from doi_never_http404[of example_env example_settings example_request "lit ''bad''"] g
  show ?thesis by blast
qed

subsection \<open>C9: the redirect of the form fallback\<close>

text \<open>
  C9. A docid submitted through the form is a decoded query-string parameter, and so a
  string UTF-8 can encode (\<open>unquote_plus_encodable\<close>: decoding never produces a
  surrogate). For every such docid, the form fallback on a unique match redirects to
  \<open>browse_citation_by_docid\<close> with \<open>quote_plus(docid)\<close>, \<open>unquote_plus\<close> of that
  argument is the docid again, and the path branch called with it queries the same
  document ID and returns the details of the citation the form's own search found.
\<close>

theorem docid_redirect_roundtrip:
  assumes "encodable docid" and "doctype \<noteq> []" and "docid \<noteq> []"
    and "\<not> (truthy url_doctype \<and> truthy url_docid)"
    and "GET request (lit ''doctype'') = Some doctype"
    and "GET request (lit ''docid'') = Some docid"
    and "length (search_by_docid env doctype docid) = 1"
  shows "\<exists>quoted. quote_plus docid = Some quoted
           \<and> browse_citation_by_docid env st request url_doctype url_docid
               = (Returns (Redirect ''browse_citation_by_docid'' [doctype, quoted]), [])
           \<and> unquote_plus quoted = docid
           \<and> browse_citation_by_docid env st request' (Some doctype) (Some quoted)
               = docid_path_branch env st doctype quoted
           \<and> docid_path_branch env st doctype quoted
               = (let citation = hd (search_by_docid env doctype docid)
                  in (Returns (citation_details st (dataset citation) (ref citation)
                                 (body citation)), []))"
proof -
  obtain quoted where q: "quote_plus docid = Some quoted"
    using assms(1) quote_plus_total by blast
  have u: "unquote_plus quoted = docid" using q by (rule unquote_plus_quote_plus)
  have ne: "quoted \<noteq> []" using q assms(3) by (rule quote_plus_nonempty)
  have form: "browse_citation_by_docid env st request url_doctype url_docid
               = (Returns (Redirect ''browse_citation_by_docid'' [doctype, quoted]), [])"
    using assms q by (auto simp: browse_citation_by_docid_def docid_form_fallback_def)
  have path: "browse_citation_by_docid env st request' (Some doctype) (Some quoted)
               = docid_path_branch env st doctype quoted"
    using assms(2) ne by (simp add: browse_citation_by_docid_def)
  have details: "docid_path_branch env st doctype quoted
               = (let citation = hd (search_by_docid env doctype docid)
                  in (Returns (citation_details st (dataset citation) (ref citation)
                                 (body citation)), []))"
    using assms(7) u by (simp add: docid_path_branch_def Let_def)
  from q form u path details show ?thesis by blast
qed

theorem docid_redirect_roundtrip_witness:
  "\<exists>quoted. quote_plus (lit ''a b'') = Some quoted
     \<and> browse_citation_by_docid example_env example_settings spaced_form None None
         = (Returns (Redirect ''browse_citation_by_docid'' [lit ''rfc'', quoted]), [])
     \<and> unquote_plus quoted = lit ''a b''
     \<and> browse_citation_by_docid example_env example_settings example_request
          (Some (lit ''rfc'')) (Some quoted)
         = docid_path_branch example_env example_settings (lit ''rfc'') quoted
     \<and> docid_path_branch example_env example_settings (lit ''rfc'') quoted
         = (let citation = hd (search_by_docid example_env (lit ''rfc'') (lit ''a b''))
            in (Returns (citation_details example_settings (dataset citation) (ref citation)
                           (body citation)), []))"
proof -
  have 1: "encodable (lit ''a b'')" by (simp add: encodable_def lit_def is_surrogate_def)
  have 2: "lit ''rfc'' \<noteq> []" "lit ''a b'' \<noteq> []" by (simp_all add: lit_def)
  have 3: "\<not> (truthy None \<and> truthy None)" by simp
  have 4: "GET spaced_form (lit ''doctype'') = Some (lit ''rfc'')"
      "GET spaced_form (lit ''docid'') = Some (lit ''a b'')"
    by (simp_all add: spaced_form_def lit_def)
  have 5: "length (search_by_docid example_env (lit ''rfc'') (lit ''a b'')) = 1"
    by (simp add: search_by_docid_def example_env_def)
  show ?thesis by (rule docid_redirect_roundtrip[OF 1 2 3 4 5])
qed

subsection \<open>C10: the dataset lists of the shared context\<close>

text \<open>
  C10. In the shared context, \<open>indexed_datasets\<close> is \<open>KNOWN_DATASETS\<close> filtered to
  the members that are not in \<open>EXTERNAL_DATASETS\<close>: a subsequence of
  \<open>KNOWN_DATASETS\<close>, disjoint from \<open>external_datasets\<close>. In the home view,
  \<open>browsable_datasets\<close> is a subsequence of \<open>indexed_datasets\<close> and holds exactly
  the indexed datasets that have at least one \<open>RefData\<close> row.
\<close>

theorem shared_context_datasets:
  fixes env :: "('d, 't) env"
  shows "(shared_context st :: ('d, 't) template_context) ''indexed_datasets''
           = Some (VStrs (indexed_datasets st))
       \<and> (shared_context st :: ('d, 't) template_context) ''external_datasets''
           = Some (VStrs (EXTERNAL_DATASETS st))
       \<and> indexed_datasets st
           = filter (\<lambda>ds. ds \<notin> set (EXTERNAL_DATASETS st)) (KNOWN_DATASETS st)
       \<and> subseq (indexed_datasets st) (KNOWN_DATASETS st)
       \<and> set (indexed_datasets st) \<inter> set (EXTERNAL_DATASETS st) = {}
       \<and> (\<exists>ctx. home env st request = (Returns (Render ''browse/home.html'' ctx), [])
             \<and> ctx ''indexed_datasets'' = Some (VStrs (indexed_datasets st))
             \<and> ctx ''browsable_datasets'' = Some (VStrs (browsable_datasets env st)))
       \<and> subseq (browsable_datasets env st) (indexed_datasets st)
       \<and> browsable_datasets env st
           = filter (\<lambda>ds. \<exists>row \<in> set (refdata_objects env). dataset row = ds)
               (indexed_datasets st)"
proof -
  have b: "browsable_datasets env st
      = filter (\<lambda>ds. \<exists>row \<in> set (refdata_objects env). dataset row = ds) (indexed_datasets st)"
    by (auto simp: browsable_datasets_def Let_def intro!: filter_cong)
  have s: "subseq (browsable_datasets env st) (indexed_datasets st)"
    unfolding b by (rule subseq_filter_left)
  have i: "subseq (indexed_datasets st) (KNOWN_DATASETS st)"
    unfolding indexed_datasets_def by (rule subseq_filter_left)
  have d: "set (indexed_datasets st) \<inter> set (EXTERNAL_DATASETS st) = {}"
    by (auto simp: indexed_datasets_def)
  have h: "\<exists>ctx. home env st request = (Returns (Render ''browse/home.html'' ctx), [])
             \<and> ctx ''indexed_datasets'' = Some (VStrs (indexed_datasets st))
             \<and> ctx ''browsable_datasets'' = Some (VStrs (browsable_datasets env st))"
    by (simp add: home_def Let_def shared_context_def)
  show ?thesis using b s i d h
    by (simp add: shared_context_def) (simp add: indexed_datasets_def)
qed

theorem shared_context_datasets_witness:
  "indexed_datasets example_settings = [lit ''rfcs'', lit ''misc'']
   \<and> browsable_datasets example_env example_settings = [lit ''rfcs'']
   \<and> subseq (browsable_datasets example_env example_settings)
        (indexed_datasets example_settings)"
proof -
  have i: "filter (\<lambda>ds. ds \<notin> set (EXTERNAL_DATASETS example_settings))
             (KNOWN_DATASETS example_settings) = [lit ''rfcs'', lit ''misc'']"
    by (simp add: example_settings_def lit_def)
  have r: "filter (\<lambda>ds. \<exists>row \<in> set (refdata_objects example_env). dataset row = ds)
             [lit ''rfcs'', lit ''misc''] = [lit ''rfcs'']"
    by (simp add: example_env_def example_citation_def lit_def)
  from shared_context_datasets[of example_settings example_env] i r
  show ?thesis by simp
qed

end
